theory Spec2Isabelle
  imports Complex_Main
begin

section \<open>Values of the C program\<close>

text \<open>
  A C \<open>double\<close> is a finite number, an infinity or a NaN; the sign of a zero is not
  kept. The comparison operators of C are exact, so \<open>dlt\<close> and \<open>deq\<close> are the operators
  \<open><\<close> and \<open>==\<close> of the source. The doubles are those of IEEE 754 binary64, and
  arithmetic on them rounds: see \<open>round64\<close> below.
\<close>

datatype double = Finite real | PlusInf | MinusInf | NaN

fun dlt :: "double \<Rightarrow> double \<Rightarrow> bool" where
  "dlt NaN b = False"
| "dlt a NaN = False"
| "dlt PlusInf b = False"
| "dlt a MinusInf = False"
| "dlt MinusInf b = True"
| "dlt a PlusInf = True"
| "dlt (Finite x) (Finite y) = (x < y)"

fun deq :: "double \<Rightarrow> double \<Rightarrow> bool" where
  "deq NaN b = False"
| "deq a NaN = False"
| "deq a b = (a = b)"

text \<open>\<open>DBL_MAX\<close> of an IEEE 754 binary64 \<open>double\<close>; \<open>AST__BAD\<close> is \<open>-DBL_MAX\<close>.\<close>

definition DBL_MAX :: real where
  "DBL_MAX = (2 - 1 / 2 ^ 52) * 2 ^ 1023"

definition AST__BAD :: double where
  "AST__BAD = Finite (- DBL_MAX)"

definition INT_MAX :: int where
  "INT_MAX = 2147483647"

text \<open>
  Rounding to binary64, to nearest with ties to even. \<open>binade k a 0\<close> is the exponent
  \<open>e\<close> with \<open>2^e \<le> a < 2^(e+1)\<close>, found by doubling or halving \<open>a\<close> at most \<open>k\<close>
  times; 2200 steps cover every sum and product of two doubles. The exponent is not taken
  below \<open>-1022\<close>, which gives the subnormal numbers their fixed spacing \<open>2^(-1074)\<close>, and
  a result above \<open>DBL_MAX\<close> is an infinity.
\<close>

definition round_even :: "real \<Rightarrow> int" where
  "round_even q =
     (let f = \<lfloor>q\<rfloor>
      in if q - of_int f < 1 / 2 then f
         else if 1 / 2 < q - of_int f then f + 1
         else if even f then f else f + 1)"

fun binade :: "nat \<Rightarrow> real \<Rightarrow> int \<Rightarrow> int" where
  "binade 0 a e = e"
| "binade (Suc k) a e =
     (if a < 1 then binade k (2 * a) (e - 1)
      else if 2 \<le> a then binade k (a / 2) (e + 1)
      else e)"

definition round64 :: "real \<Rightarrow> double" where
  "round64 x =
     (if x = 0 then Finite 0
      else
        let e = max (- 1022) (binade 2200 \<bar>x\<bar> 0);
            ulp = 2 powi (e - 52);
            y = of_int (round_even (\<bar>x\<bar> / ulp)) * ulp
        in if DBL_MAX < y then (if 0 < x then PlusInf else MinusInf)
           else Finite (if 0 < x then y else - y))"

text \<open>The operator \<open>*\<close> of C on two doubles: the exact product, rounded.\<close>

fun dmul :: "double \<Rightarrow> double \<Rightarrow> double" where
  "dmul (Finite x) (Finite y) = round64 (x * y)"
| "dmul NaN b = NaN"
| "dmul a NaN = NaN"
| "dmul (Finite x) PlusInf = (if x = 0 then NaN else if 0 < x then PlusInf else MinusInf)"
| "dmul (Finite x) MinusInf = (if x = 0 then NaN else if 0 < x then MinusInf else PlusInf)"
| "dmul PlusInf (Finite y) = (if y = 0 then NaN else if 0 < y then PlusInf else MinusInf)"
| "dmul MinusInf (Finite y) = (if y = 0 then NaN else if 0 < y then MinusInf else PlusInf)"
| "dmul PlusInf PlusInf = PlusInf"
| "dmul PlusInf MinusInf = MinusInf"
| "dmul MinusInf PlusInf = MinusInf"
| "dmul MinusInf MinusInf = PlusInf"

text \<open>
  The C type \<open>int\<close> has 32 bits. Overflow of signed arithmetic is undefined in C; it is
  written here as the wrap-around of two's complement, which \<open>int32\<close> applies to the
  exact result.
\<close>

definition int32 :: "int \<Rightarrow> int" where
  "int32 x = (x + 2 ^ 31) mod 2 ^ 32 - 2 ^ 31"

text \<open>
  The expression \<open>(int)( d + 0.5 )\<close>: the sum is that of two doubles and the conversion
  to \<open>int\<close> discards the fraction. The conversion of a NaN, of an infinity or of a value
  outside the range of \<open>int\<close> is undefined in C; it is written here as 0 for a NaN and
  the infinities and as wrap-around for the others.
\<close>

definition dnint :: "double \<Rightarrow> int" where
  "dnint a =
     (case a of
        Finite x \<Rightarrow>
          (case round64 (x + 1 / 2) of
             Finite y \<Rightarrow> int32 (if 0 \<le> y then \<lfloor>y\<rfloor> else \<lceil>y\<rceil>)
           | _ \<Rightarrow> 0)
      | _ \<Rightarrow> 0)"

text \<open>The error codes that \<open>region.c\<close> hands to \<open>astError\<close>, and \<open>AST__EXT\<close> for a code
  raised inside a collaborator.\<close>

datatype errcode =
    AST__NODEF | AST__ATSER | AST__NGDIN | AST__GBDIN
  | AST__BADIN | AST__NCPIN | AST__INTER | AST__EXT nat

text \<open>The two distinguished Frame indices of a FrameSet, and any other index.\<close>

datatype fsindex = AST__BASE | AST__CURRENT | FrameIndex int

section \<open>Objects and the store\<close>

text \<open>
  A PointSet holds \<open>ncoord\<close> arrays of \<open>npoint\<close> axis values: \<open>ptr ps ! iax ! ip\<close> is
  \<open>ptr[iax][ip]\<close> of the source.
\<close>

record AstPointSet =
  npoint :: nat
  ptr :: "double list list"

text \<open>
  The components of \<open>struct AstRegion\<close> that \<open>region.c\<close> reads and writes. Objects live
  in a store and are named by addresses; a pointer that may be \<open>NULL\<close> is an
  \<open>option\<close>. \<open>class_name\<close> is what \<open>astGetClass\<close> returns for the object.
\<close>

record AstRegion =
  class_name :: string
  frameset :: "nat option"
  points :: "nat option"
  basemesh :: "nat option"
  unc :: "nat option"
  defunc :: int
  negated :: int
  closed_attr :: int
  meshsize :: int
  fillfactor :: double
  regionfs :: int

text \<open>
  The process-wide error status (\<open>None\<close> is "OK"), the codes reported so far, and the
  store: one partial map for each kind of object that the code reaches through a pointer,
  with the next unused address. A FrameSet is a value of the type parameter \<open>'fs\<close>; its
  operations belong to the collaborators.
\<close>

record 'fs state =
  status :: "errcode option"
  reports :: "errcode list"
  regions :: "nat \<rightharpoonup> AstRegion"
  framesets :: "nat \<rightharpoonup> 'fs"
  pointsets :: "nat \<rightharpoonup> AstPointSet"
  next_free :: nat

definition astOK :: "'fs state \<Rightarrow> bool" where
  "astOK s = (status s = None)"

text \<open>\<open>astError\<close> sets the error status to the given code and reports it.\<close>

definition astError :: "errcode \<Rightarrow> 'fs state \<Rightarrow> 'fs state" where
  "astError c s = s\<lparr>status := Some c, reports := reports s @ [c]\<rparr>"

definition upd_region :: "nat \<Rightarrow> (AstRegion \<Rightarrow> AstRegion) \<Rightarrow> 'fs state \<Rightarrow> 'fs state" where
  "upd_region p f s =
     (case regions s p of
        None \<Rightarrow> s
      | Some r \<Rightarrow> s\<lparr>regions := (regions s)(p \<mapsto> f r)\<rparr>)"

section \<open>Collaborators\<close>

text \<open>
  The Frame, Mapping and FrameSet classes, the constructors of the concrete shapes and
  the virtual primitives that only a concrete shape implements are outside
  \<open>region.c\<close>. They are the fields of an environment; \<open>'f\<close> is the type of Frame
  values and \<open>'m\<close> the type of Mapping values.
\<close>

record ('f, 'm, 'fs) env =
  astGetFrame :: "'fs \<Rightarrow> fsindex \<Rightarrow> 'f"
  astGetMapping :: "'fs \<Rightarrow> fsindex \<Rightarrow> fsindex \<Rightarrow> 'm"
  astGetCurrent :: "'fs \<Rightarrow> int"
  astGetBase :: "'fs \<Rightarrow> int"
  astSetBase :: "'fs \<Rightarrow> int \<Rightarrow> 'fs"
  astInvert :: "'fs \<Rightarrow> 'fs"
  astAddFrame :: "'fs \<Rightarrow> fsindex \<Rightarrow> 'm \<Rightarrow> 'f \<Rightarrow> errcode + 'fs"
  astRemoveFrame :: "'fs \<Rightarrow> int \<Rightarrow> errcode + 'fs"
  fsGetNin :: "'fs \<Rightarrow> int"
  fsGetNout :: "'fs \<Rightarrow> int"
  fsConvert :: "'fs \<Rightarrow> 'fs \<Rightarrow> 'fs option \<times> 'fs \<times> 'fs"
  frmConvert :: "'f \<Rightarrow> 'f \<Rightarrow> 'fs option"
  frmGetNaxes :: "'f \<Rightarrow> int"
  astAxDistance :: "'f \<Rightarrow> int \<Rightarrow> double \<Rightarrow> double \<Rightarrow> double"
  astFrame :: "int \<Rightarrow> string \<Rightarrow> 'f"
  astGetTranForward :: "'m \<Rightarrow> bool"
  astGetTranInverse :: "'m \<Rightarrow> bool"
  astGetNin :: "'m \<Rightarrow> int"
  astGetNout :: "'m \<Rightarrow> int"
  astSimplify :: "'m \<Rightarrow> 'm"
  astIsAUnitMap :: "'m \<Rightarrow> bool"
  astCmpMap :: "'m \<Rightarrow> 'm \<Rightarrow> 'm"
  astTransform :: "'m \<Rightarrow> AstPointSet \<Rightarrow> bool \<Rightarrow> AstPointSet"
  astMapBox :: "'m \<Rightarrow> double list \<Rightarrow> double list \<Rightarrow> nat \<Rightarrow> double \<times> double"
  ptEqual :: "AstPointSet option \<Rightarrow> AstPointSet option \<Rightarrow> bool"
  frmEqual :: "'f \<Rightarrow> 'f \<Rightarrow> bool"
  mapEqual :: "'m \<Rightarrow> 'm \<Rightarrow> bool"
  astIsA :: "string \<Rightarrow> string \<Rightarrow> bool"
  GetBounded_override :: "string \<Rightarrow> ('fs state \<Rightarrow> nat \<Rightarrow> int) option"
  astRegBaseBox :: "'fs state \<Rightarrow> nat \<Rightarrow> errcode + (double list \<times> double list)"
  astRegBaseMesh :: "'fs state \<Rightarrow> nat \<Rightarrow> AstPointSet"
  astRegPins :: "'fs state \<Rightarrow> nat \<Rightarrow> AstPointSet \<Rightarrow> nat option \<Rightarrow> int"
  regTransform :: "'fs state \<Rightarrow> nat \<Rightarrow> AstPointSet \<Rightarrow> AstPointSet"
  astRegCentre :: "nat \<Rightarrow> AstPointSet option \<Rightarrow> 'fs state \<Rightarrow> 'fs state"
  astBox :: "'f \<Rightarrow> int \<Rightarrow> double list \<Rightarrow> double list \<Rightarrow> nat option \<Rightarrow> 'fs state
               \<Rightarrow> nat option \<times> 'fs state"

section \<open>Attributes of a Region\<close>

text \<open>
  The accessors are generated by the macros \<open>astMAKE_CLEAR\<close>, \<open>astMAKE_GET\<close>,
  \<open>astMAKE_SET\<close> and \<open>astMAKE_TEST\<close>. Each generated function returns at once when the
  error status is set (a getter then returns the macro's fourth argument); otherwise a
  setter assigns the macro's last argument to the component, and a getter returns it.
\<close>

definition GetNaxes :: "('f, 'm, 'fs) env \<Rightarrow> 'fs state \<Rightarrow> nat \<Rightarrow> int" where
  "GetNaxes E s this =
     (if \<not> astOK s then 0
      else case regions s this of
        None \<Rightarrow> 0
      | Some r \<Rightarrow>
          (case frameset r of
             None \<Rightarrow> 0
           | Some fp \<Rightarrow>
               (case framesets s fp of
                  None \<Rightarrow> 0
                | Some fs \<Rightarrow> frmGetNaxes E (astGetFrame E fs AST__CURRENT))))"

definition ClearNegated :: "nat \<Rightarrow> 'fs state \<Rightarrow> 'fs state" where
  "ClearNegated this s =
     (if \<not> astOK s then s else upd_region this (\<lambda>r. r\<lparr>negated := - INT_MAX\<rparr>) s)"

definition GetNegated :: "'fs state \<Rightarrow> nat \<Rightarrow> int" where
  "GetNegated s this =
     (if \<not> astOK s then 0
      else case regions s this of
        None \<Rightarrow> 0
      | Some r \<Rightarrow> if negated r = - INT_MAX then 0 else negated r)"

definition SetNegated :: "nat \<Rightarrow> int \<Rightarrow> 'fs state \<Rightarrow> 'fs state" where
  "SetNegated this v s =
     (if \<not> astOK s then s
      else upd_region this (\<lambda>r. r\<lparr>negated := (if v \<noteq> 0 then 1 else 0)\<rparr>) s)"

definition TestNegated :: "'fs state \<Rightarrow> nat \<Rightarrow> int" where
  "TestNegated s this =
     (if \<not> astOK s then 0
      else case regions s this of
        None \<Rightarrow> 0
      | Some r \<Rightarrow> if negated r \<noteq> - INT_MAX then 1 else 0)"

definition ClearClosed :: "nat \<Rightarrow> 'fs state \<Rightarrow> 'fs state" where
  "ClearClosed this s =
     (if \<not> astOK s then s else upd_region this (\<lambda>r. r\<lparr>closed_attr := - INT_MAX\<rparr>) s)"

definition GetClosed :: "'fs state \<Rightarrow> nat \<Rightarrow> int" where
  "GetClosed s this =
     (if \<not> astOK s then 1
      else case regions s this of
        None \<Rightarrow> 1
      | Some r \<Rightarrow> if closed_attr r = - INT_MAX then 1 else closed_attr r)"

definition SetClosed :: "nat \<Rightarrow> int \<Rightarrow> 'fs state \<Rightarrow> 'fs state" where
  "SetClosed this v s =
     (if \<not> astOK s then s
      else upd_region this (\<lambda>r. r\<lparr>closed_attr := (if v \<noteq> 0 then 1 else 0)\<rparr>) s)"

definition TestClosed :: "'fs state \<Rightarrow> nat \<Rightarrow> int" where
  "TestClosed s this =
     (if \<not> astOK s then 0
      else case regions s this of
        None \<Rightarrow> 0
      | Some r \<Rightarrow> if closed_attr r \<noteq> - INT_MAX then 1 else 0)"

definition ClearRegionFS :: "nat \<Rightarrow> 'fs state \<Rightarrow> 'fs state" where
  "ClearRegionFS this s =
     (if \<not> astOK s then s else upd_region this (\<lambda>r. r\<lparr>regionfs := - INT_MAX\<rparr>) s)"

definition GetRegionFS :: "'fs state \<Rightarrow> nat \<Rightarrow> int" where
  "GetRegionFS s this =
     (if \<not> astOK s then 1
      else case regions s this of
        None \<Rightarrow> 1
      | Some r \<Rightarrow> if regionfs r = - INT_MAX then 1 else regionfs r)"

definition SetRegionFS :: "nat \<Rightarrow> int \<Rightarrow> 'fs state \<Rightarrow> 'fs state" where
  "SetRegionFS this v s =
     (if \<not> astOK s then s
      else upd_region this (\<lambda>r. r\<lparr>regionfs := (if v \<noteq> 0 then 1 else 0)\<rparr>) s)"

definition TestRegionFS :: "'fs state \<Rightarrow> nat \<Rightarrow> int" where
  "TestRegionFS s this =
     (if \<not> astOK s then 0
      else case regions s this of
        None \<Rightarrow> 0
      | Some r \<Rightarrow> if regionfs r \<noteq> - INT_MAX then 1 else 0)"

text \<open>
  FillFactor. The setter's value is the conditional expression of the source: outside
  the range it calls \<open>astError\<close> twice and yields the component's own value.
\<close>

definition ClearFillFactor :: "nat \<Rightarrow> 'fs state \<Rightarrow> 'fs state" where
  "ClearFillFactor this s =
     (if \<not> astOK s then s else upd_region this (\<lambda>r. r\<lparr>fillfactor := AST__BAD\<rparr>) s)"

definition GetFillFactor :: "'fs state \<Rightarrow> nat \<Rightarrow> double" where
  "GetFillFactor s this =
     (if \<not> astOK s then Finite 1
      else case regions s this of
        None \<Rightarrow> Finite 1
      | Some r \<Rightarrow> if deq (fillfactor r) AST__BAD then Finite 1 else fillfactor r)"

definition TestFillFactor :: "'fs state \<Rightarrow> nat \<Rightarrow> int" where
  "TestFillFactor s this =
     (if \<not> astOK s then 0
      else case regions s this of
        None \<Rightarrow> 0
      | Some r \<Rightarrow> if \<not> deq (fillfactor r) AST__BAD then 1 else 0)"

definition SetFillFactor :: "nat \<Rightarrow> double \<Rightarrow> 'fs state \<Rightarrow> 'fs state" where
  "SetFillFactor this v s =
     (if \<not> astOK s then s
      else if dlt v (Finite 0) \<or> dlt (Finite 1) v
      then upd_region this (\<lambda>r. r\<lparr>fillfactor := fillfactor r\<rparr>)
             (astError AST__ATSER (astError AST__ATSER s))
      else upd_region this (\<lambda>r. r\<lparr>fillfactor := v\<rparr>) s)"

text \<open>
  MeshSize. Setting or clearing it first annuls the cached mesh of boundary points;
  the getter's default depends on the number of axes of the Region.
\<close>

definition ClearMeshSize :: "nat \<Rightarrow> 'fs state \<Rightarrow> 'fs state" where
  "ClearMeshSize this s =
     (if \<not> astOK s then s
      else upd_region this (\<lambda>r. r\<lparr>basemesh := None, meshsize := - INT_MAX\<rparr>) s)"

definition SetMeshSize :: "nat \<Rightarrow> int \<Rightarrow> 'fs state \<Rightarrow> 'fs state" where
  "SetMeshSize this v s =
     (if \<not> astOK s then s
      else upd_region this
             (\<lambda>r. r\<lparr>basemesh := None, meshsize := (if v > 5 then v else 5)\<rparr>) s)"

definition TestMeshSize :: "'fs state \<Rightarrow> nat \<Rightarrow> int" where
  "TestMeshSize s this =
     (if \<not> astOK s then 0
      else case regions s this of
        None \<Rightarrow> 0
      | Some r \<Rightarrow> if meshsize r \<noteq> - INT_MAX then 1 else 0)"

definition GetMeshSize :: "('f, 'm, 'fs) env \<Rightarrow> 'fs state \<Rightarrow> nat \<Rightarrow> int" where
  "GetMeshSize E s this =
     (if \<not> astOK s then 0
      else case regions s this of
        None \<Rightarrow> 0
      | Some r \<Rightarrow>
          if meshsize r = - INT_MAX
          then (if GetNaxes E s this = 1 then 2
                else if GetNaxes E s this = 2 then 200 else 2000)
          else meshsize r)"


section \<open>Negation and boundedness\<close>

definition Negate :: "nat \<Rightarrow> 'fs state \<Rightarrow> 'fs state" where
  "Negate this s =
     (if \<not> astOK s then s
      else SetNegated this (if GetNegated s this \<noteq> 0 then 0 else 1) s)"

text \<open>The implementation of the base class: bounded as long as not negated.\<close>

definition GetBounded :: "'fs state \<Rightarrow> nat \<Rightarrow> int" where
  "GetBounded s this = (if GetNegated s this \<noteq> 0 then 0 else 1)"

text \<open>
  \<open>astGetBounded\<close> is the virtual interface: it checks the error status and calls the
  member function of the object's class, which is \<open>GetBounded\<close> unless the class
  overrides it.
\<close>

definition astGetBounded :: "('f, 'm, 'fs) env \<Rightarrow> 'fs state \<Rightarrow> nat \<Rightarrow> int" where
  "astGetBounded E s this =
     (if \<not> astOK s then 0
      else case regions s this of
        None \<Rightarrow> 0
      | Some r \<Rightarrow>
          (case GetBounded_override E (class_name r) of
             None \<Rightarrow> GetBounded s this
           | Some f \<Rightarrow> f s this))"

section \<open>Equality of two Regions\<close>

definition pointset_at :: "'fs state \<Rightarrow> nat option \<Rightarrow> AstPointSet option" where
  "pointset_at s p = (case p of None \<Rightarrow> None | Some a \<Rightarrow> pointsets s a)"

definition frameset_at :: "'fs state \<Rightarrow> nat option \<Rightarrow> 'fs option" where
  "frameset_at s p = (case p of None \<Rightarrow> None | Some a \<Rightarrow> framesets s a)"

definition Equal :: "('f, 'm, 'fs) env \<Rightarrow> 'fs state \<Rightarrow> nat \<Rightarrow> nat \<Rightarrow> int" where
  "Equal E s this that =
     (if \<not> astOK s then 0
      else case (regions s this, regions s that) of
        (Some a, Some b) \<Rightarrow>
          if class_name a = class_name b then
            if ptEqual E (pointset_at s (points a)) (pointset_at s (points b)) then
              (case (frameset_at s (frameset a), frameset_at s (frameset b)) of
                 (Some fa, Some fb) \<Rightarrow>
                   if frmEqual E (astGetFrame E fa AST__BASE) (astGetFrame E fb AST__BASE) then
                     if frmEqual E (astGetFrame E fa AST__CURRENT)
                                   (astGetFrame E fb AST__CURRENT) then
                       if mapEqual E (astGetMapping E fa AST__BASE AST__CURRENT)
                                     (astGetMapping E fb AST__BASE AST__CURRENT) then
                         if GetNegated s this = GetNegated s that
                            \<and> GetClosed s this = GetClosed s that
                         then 1 else 0
                       else 0
                     else 0
                   else 0
               | _ \<Rightarrow> 0)
            else 0
          else 0
      | _ \<Rightarrow> 0)"

section \<open>Copying\<close>

text \<open>
  \<open>astCopy\<close> makes a new object that starts as the image of the old one and then runs
  the copy constructor of the class. A FrameSet or PointSet is copied to a new address.
  \<open>astAnnul\<close> gives up a pointer and yields \<open>NULL\<close>; the storage of an object is
  never reclaimed here, so an annulled object stays in the store.
\<close>

definition new_region :: "AstRegion \<Rightarrow> 'fs state \<Rightarrow> nat \<times> 'fs state" where
  "new_region r s =
     (next_free s,
      s\<lparr>regions := (regions s)(next_free s \<mapsto> r), next_free := Suc (next_free s)\<rparr>)"

definition astCopyFrameSet :: "nat option \<Rightarrow> 'fs state \<Rightarrow> nat option \<times> 'fs state" where
  "astCopyFrameSet p s =
     (if \<not> astOK s then (None, s)
      else case frameset_at s p of
        None \<Rightarrow> (None, s)
      | Some fs \<Rightarrow>
          (Some (next_free s),
           s\<lparr>framesets := (framesets s)(next_free s \<mapsto> fs),
             next_free := Suc (next_free s)\<rparr>))"

definition astCopyPointSet :: "nat option \<Rightarrow> 'fs state \<Rightarrow> nat option \<times> 'fs state" where
  "astCopyPointSet p s =
     (if \<not> astOK s then (None, s)
      else case pointset_at s p of
        None \<Rightarrow> (None, s)
      | Some ps \<Rightarrow>
          (Some (next_free s),
           s\<lparr>pointsets := (pointsets s)(next_free s \<mapsto> ps),
             next_free := Suc (next_free s)\<rparr>))"

text \<open>
  The copy constructor of the Region class. The uncertainty is a Region, so its copy is
  a recursive \<open>astCopy\<close>, passed here as \<open>cp\<close>; \<open>None\<close> means that the recursion ran
  out of fuel.
\<close>

definition Copy ::
  "(nat \<Rightarrow> 'fs state \<Rightarrow> (nat option \<times> 'fs state) option)
     \<Rightarrow> nat \<Rightarrow> nat \<Rightarrow> 'fs state \<Rightarrow> 'fs state option" where
  "Copy cp objin objout s =
     (if \<not> astOK s then Some s
      else case regions s objin of
        None \<Rightarrow> Some s
      | Some r \<Rightarrow>
          let s1 = upd_region objout
                     (\<lambda>out. out\<lparr>basemesh := None, frameset := None, points := None,
                                 unc := None\<rparr>) s;
              s2 = (case astCopyFrameSet (frameset r) s1 of
                      (fp, t) \<Rightarrow> upd_region objout (\<lambda>out. out\<lparr>frameset := fp\<rparr>) t);
              s3 = (if points r \<noteq> None
                    then (case astCopyPointSet (points r) s2 of
                            (pp, t) \<Rightarrow> upd_region objout (\<lambda>out. out\<lparr>points := pp\<rparr>) t)
                    else s2);
              s4 = (if basemesh r \<noteq> None
                    then (case astCopyPointSet (basemesh r) s3 of
                            (bp, t) \<Rightarrow> upd_region objout (\<lambda>out. out\<lparr>basemesh := bp\<rparr>) t)
                    else s3)
          in (case unc r of
                None \<Rightarrow> Some s4
              | Some u \<Rightarrow>
                  (case cp u s4 of
                     None \<Rightarrow> None
                   | Some (up, t) \<Rightarrow> Some (upd_region objout (\<lambda>out. out\<lparr>unc := up\<rparr>) t))))"

primrec astCopyRegion ::
  "nat \<Rightarrow> nat \<Rightarrow> 'fs state \<Rightarrow> (nat option \<times> 'fs state) option" where
  "astCopyRegion 0 = (\<lambda>p s. if \<not> astOK s then Some (None, s) else None)"
| "astCopyRegion (Suc k) =
     (\<lambda>p s.
        if \<not> astOK s then Some (None, s)
        else case regions s p of
          None \<Rightarrow> Some (None, s)
        | Some r \<Rightarrow>
            (case new_region r s of
               (q, s1) \<Rightarrow>
                 (case Copy (astCopyRegion k) p q s1 of
                    None \<Rightarrow> None
                  | Some s2 \<Rightarrow> Some (if astOK s2 then Some q else None, s2))))"

section \<open>MapRegion\<close>

definition upd_frameset :: "nat option \<Rightarrow> ('fs \<Rightarrow> 'fs) \<Rightarrow> 'fs state \<Rightarrow> 'fs state" where
  "upd_frameset p f s =
     (case p of
        None \<Rightarrow> s
      | Some a \<Rightarrow>
          (case framesets s a of
             None \<Rightarrow> s
           | Some fs \<Rightarrow> s\<lparr>framesets := (framesets s)(a \<mapsto> f fs)\<rparr>))"

text \<open>
  The surgery on the FrameSet \<open>fs\<close> of the copy: add the new Frame as current Frame,
  remove the old current Frame, and mark the FrameSet as one to be dumped. A collaborator
  that fails reports its error and the steps after it see the error status set.
\<close>

definition MapRegion_surgery ::
  "('f, 'm, 'fs) env \<Rightarrow> nat \<Rightarrow> 'm \<Rightarrow> 'f \<Rightarrow> 'fs state \<Rightarrow> 'fs state" where
  "MapRegion_surgery E res map_arg frame s =
     (case regions s res of
        None \<Rightarrow> s
      | Some r \<Rightarrow>
          (case frameset_at s (frameset r) of
             None \<Rightarrow> s
           | Some fs \<Rightarrow>
               let icurr = astGetCurrent E fs in
               (case astAddFrame E fs AST__CURRENT map_arg frame of
                  Inl e \<Rightarrow> astError e s
                | Inr fs1 \<Rightarrow>
                    (case astRemoveFrame E fs1 icurr of
                       Inl e \<Rightarrow> astError e (upd_frameset (frameset r) (\<lambda>x. fs1) s)
                     | Inr fs2 \<Rightarrow>
                         SetRegionFS res 1 (upd_frameset (frameset r) (\<lambda>x. fs2) s)))))"

definition MapRegion ::
  "nat \<Rightarrow> ('f, 'm, 'fs) env \<Rightarrow> nat \<Rightarrow> 'm \<Rightarrow> 'f \<Rightarrow> 'fs state
     \<Rightarrow> (nat option \<times> 'fs state) option" where
  "MapRegion fuel E this map_arg frame s =
     (if \<not> astOK s then Some (None, s)
      else
        let s1 = (if \<not> astGetTranInverse E map_arg then astError AST__NODEF s
                  else if \<not> astGetTranForward E map_arg then astError AST__NODEF s
                  else s)
        in (case astCopyRegion fuel this s1 of
              None \<Rightarrow> None
            | Some (result, s2) \<Rightarrow>
                let s3 = (if astOK s2
                          then (case result of
                                  None \<Rightarrow> s2
                                | Some res \<Rightarrow> MapRegion_surgery E res map_arg frame s2)
                          else s2)
                in Some (if \<not> astOK s3 then None else result, s3)))"

section \<open>The uncertainty of a Region\<close>

definition ClearUnc :: "nat \<Rightarrow> 'fs state \<Rightarrow> 'fs state" where
  "ClearUnc this s =
     (if \<not> astOK s then s
      else upd_region this (\<lambda>r. r\<lparr>unc := None, defunc := 1\<rparr>) s)"

definition TestUnc :: "'fs state \<Rightarrow> nat \<Rightarrow> int" where
  "TestUnc s this =
     (if \<not> astOK s then 0
      else case regions s this of
        None \<Rightarrow> 0
      | Some r \<Rightarrow> if unc r \<noteq> None \<and> defunc r = 0 then 1 else 0)"

text \<open>
  \<open>Conv\<close> calls \<open>astConvert\<close> on two FrameSets, which may change the base Frame of
  each, and then puts the original base Frames back. The FrameSet it returns is a new
  object that its callers use and annul at once, so it is a value here.
\<close>

definition Conv ::
  "('f, 'm, 'fs) env \<Rightarrow> nat option \<Rightarrow> nat option \<Rightarrow> 'fs state \<Rightarrow> 'fs option \<times> 'fs state" where
  "Conv E from to s =
     (if \<not> astOK s then (None, s)
      else case (frameset_at s to, frameset_at s from) of
        (Some fto, Some ffrom) \<Rightarrow>
          let to_base = astGetBase E fto;
              from_base = astGetBase E ffrom
          in (case fsConvert E ffrom fto of
                (result, ffrom1, fto1) \<Rightarrow>
                  let s1 = upd_frameset to (\<lambda>x. fto1) (upd_frameset from (\<lambda>x. ffrom1) s);
                      s2 = upd_frameset to (\<lambda>x. astSetBase E x to_base) s1;
                      s3 = upd_frameset from (\<lambda>x. astSetBase E x from_base) s2
                  in (result, s3))
      | _ \<Rightarrow> (None, s))"

text \<open>
  \<open>SetUnc\<close>. \<open>astIsAObject\<close> holds of a pointer that addresses an object of the
  store. The steps that follow the call of \<open>astMapRegion\<close> go through virtual interfaces
  that do nothing once the error status is set; where the source would read through a
  \<open>NULL\<close> result of \<open>astMapRegion\<close> the step is left out.
\<close>

text \<open>The search for a conversion from the Frame of the supplied uncertainty to the
  base Frame of the Region: the FrameSet of the Region is inverted around the call of
  \<open>Conv\<close>.\<close>

definition SetUnc_convert ::
  "('f, 'm, 'fs) env \<Rightarrow> nat option \<Rightarrow> nat option \<Rightarrow> 'fs state \<Rightarrow> 'fs option \<times> 'fs state" where
  "SetUnc_convert E fs unc_fs s =
     (case Conv E unc_fs fs (upd_frameset fs (astInvert E) s) of
        (fs2, s3) \<Rightarrow> (fs2, upd_frameset fs (astInvert E) s3))"

definition SetUnc_store ::
  "('f, 'm, 'fs) env \<Rightarrow> nat \<Rightarrow> nat option \<Rightarrow> 'fs state \<Rightarrow> 'fs state" where
  "SetUnc_store E this nu s =
     (let s1 = upd_region this (\<lambda>r. r\<lparr>unc := nu\<rparr>) s;
          s2 = (case nu of
                  None \<Rightarrow> s1
                | Some q \<Rightarrow> if astGetBounded E s1 q = 0 then Negate q s1 else s1);
          s3 = upd_region this (\<lambda>r. r\<lparr>defunc := 0\<rparr>) s2;
          s4 = (case nu of
                  None \<Rightarrow> s3
                | Some q \<Rightarrow>
                    (case regions s3 q of
                       None \<Rightarrow> s3
                     | Some ur \<Rightarrow>
                         (case frameset_at s3 (frameset ur) of
                            None \<Rightarrow> s3
                          | Some fq \<Rightarrow>
                              if astIsAUnitMap E
                                   (astSimplify E (astGetMapping E fq AST__BASE AST__CURRENT))
                              then SetRegionFS q 0 s3 else s3)))
      in (case nu of
            None \<Rightarrow> s4
          | Some q \<Rightarrow>
              if \<not> astOK s4 then s4
              else (case regions s4 this of
                      None \<Rightarrow> s4
                    | Some r \<Rightarrow> astRegCentre E q (pointset_at s4 (points r)) s4)))"

definition SetUnc ::
  "nat \<Rightarrow> ('f, 'm, 'fs) env \<Rightarrow> nat \<Rightarrow> nat option \<Rightarrow> 'fs state \<Rightarrow> 'fs state option" where
  "SetUnc fuel E this unc_arg s =
     (if \<not> astOK s then Some s
      else case regions s this of
        None \<Rightarrow> Some s
      | Some r \<Rightarrow>
          let s1 = upd_region this
                     (\<lambda>r. r\<lparr>unc := (case unc r of
                                      None \<Rightarrow> None
                                    | Some u \<Rightarrow> if regions s u \<noteq> None then None else Some u),
                            defunc := 1\<rparr>) s
          in (case unc_arg of
                None \<Rightarrow> Some s1
              | Some u \<Rightarrow>
                  (case regions s1 u of
                     None \<Rightarrow> Some s1
                   | Some ur \<Rightarrow>
                       if astIsA E (class_name ur) ''Box'' \<or> astIsA E (class_name ur) ''Circle''
                          \<or> astIsA E (class_name ur) ''Ellipse''
                       then
                         (case SetUnc_convert E (frameset r) (frameset ur) s1 of
                            (Some f2, s4) \<Rightarrow>
                              (case MapRegion fuel E u
                                      (astGetMapping E f2 AST__BASE AST__CURRENT)
                                      (astGetFrame E f2 AST__CURRENT) s4 of
                                 None \<Rightarrow> None
                               | Some (nu, s5) \<Rightarrow> Some (SetUnc_store E this nu s5))
                          | (None, s4) \<Rightarrow>
                              Some (if astOK s4
                                    then astError AST__NCPIN (astError AST__BADIN s4)
                                    else s4))
                       else Some (if astOK s1
                                  then astError AST__NCPIN (astError AST__BADIN s1)
                                  else s1))))"

text \<open>
  \<open>GetDefUnc\<close>. The loop overwrites \<open>lbnd\<close> with zeros and \<open>ubnd\<close> with
  \<open>0.5E-6*axlen\<close>; the product is that of two doubles and \<open>half_micro\<close> is the
  literal \<open>0.5E-6\<close>, the double nearest to \<open>5/10^7\<close>. The two arrays are then the centre and a
  corner handed to the Box constructor (its second argument \<open>0\<close> says so).
\<close>

definition half_micro :: double where
  "half_micro = round64 (5 / 10 ^ 7)"

definition DefUnc_centre :: "nat \<Rightarrow> double list" where
  "DefUnc_centre nax = replicate nax (Finite 0)"

definition DefUnc_corner ::
  "('f, 'm, 'fs) env \<Rightarrow> 'f \<Rightarrow> nat \<Rightarrow> double list \<Rightarrow> double list \<Rightarrow> double list" where
  "DefUnc_corner E bfrm nax lbnd ubnd =
     map (\<lambda>i. dmul half_micro (astAxDistance E bfrm (int i + 1) (lbnd ! i) (ubnd ! i)))
       [0..<nax]"

definition GetDefUnc ::
  "('f, 'm, 'fs) env \<Rightarrow> nat \<Rightarrow> 'fs state \<Rightarrow> nat option \<times> 'fs state" where
  "GetDefUnc E this s =
     (if \<not> astOK s then (None, s)
      else case regions s this of
        None \<Rightarrow> (None, s)
      | Some r \<Rightarrow>
          (case frameset_at s (frameset r) of
             None \<Rightarrow> (None, s)
           | Some fs \<Rightarrow>
               let bfrm = astGetFrame E fs AST__BASE;
                   nax = nat (frmGetNaxes E bfrm)
               in (case astRegBaseBox E s this of
                     Inl e \<Rightarrow> (None, astError e s)
                   | Inr (lbnd, ubnd) \<Rightarrow>
                       (case astBox E bfrm 0 (DefUnc_centre nax)
                               (DefUnc_corner E bfrm nax lbnd ubnd) None s of
                          (result, s1) \<Rightarrow> (if \<not> astOK s1 then None else result, s1)))))"

definition GetUnc ::
  "nat \<Rightarrow> ('f, 'm, 'fs) env \<Rightarrow> nat \<Rightarrow> fsindex \<Rightarrow> 'fs state
     \<Rightarrow> (nat option \<times> 'fs state) option" where
  "GetUnc fuel E this ifrm s =
     (if \<not> astOK s then Some (None, s)
      else case regions s this of
        None \<Rightarrow> Some (None, s)
      | Some r \<Rightarrow>
          let s1 = (if unc r = None
                    then (case GetDefUnc E this s of
                            (d, t) \<Rightarrow> upd_region this (\<lambda>r. r\<lparr>unc := d, defunc := 1\<rparr>) t)
                    else s);
              u = (case regions s1 this of None \<Rightarrow> None | Some r1 \<Rightarrow> unc r1);
              fp = (case regions s1 this of None \<Rightarrow> None | Some r1 \<Rightarrow> frameset r1)
          in if \<not> astOK s1 then Some (None, s1)
             else if ifrm = AST__BASE then Some (u, s1)
             else (case frameset_at s1 fp of
                     None \<Rightarrow> Some (None, s1)
                   | Some fs \<Rightarrow>
                       let mp = astGetMapping E fs AST__BASE AST__CURRENT
                       in if astIsAUnitMap E mp then Some (u, s1)
                          else (case u of
                                  None \<Rightarrow> Some (None, s1)
                                | Some up \<Rightarrow>
                                    MapRegion fuel E up mp (astGetFrame E fs AST__CURRENT) s1)))"

section \<open>Meshes and bounding boxes\<close>

definition RegMapping :: "('f, 'm, 'fs) env \<Rightarrow> 'fs state \<Rightarrow> nat \<Rightarrow> 'm option" where
  "RegMapping E s this =
     (if \<not> astOK s then None
      else case regions s this of
        None \<Rightarrow> None
      | Some r \<Rightarrow>
          (case frameset_at s (frameset r) of
             None \<Rightarrow> None
           | Some fs \<Rightarrow> Some (astSimplify E (astGetMapping E fs AST__BASE AST__CURRENT))))"

text \<open>
  \<open>RegMesh\<close> caches the mesh of the base Frame in the Region and returns the mesh in
  the current Frame. The returned PointSet is used and annulled by the caller, so it is a
  value here.
\<close>

definition RegMesh ::
  "('f, 'm, 'fs) env \<Rightarrow> nat \<Rightarrow> 'fs state \<Rightarrow> AstPointSet option \<times> 'fs state" where
  "RegMesh E this s =
     (if \<not> astOK s then (None, s)
      else case regions s this of
        None \<Rightarrow> (None, s)
      | Some r \<Rightarrow>
          let s1 = (if basemesh r = None
                    then upd_region this (\<lambda>r. r\<lparr>basemesh := Some (next_free s)\<rparr>)
                           (s\<lparr>pointsets := (pointsets s)(next_free s \<mapsto> astRegBaseMesh E s this),
                              next_free := Suc (next_free s)\<rparr>)
                    else s);
              bm = (case regions s1 this of
                      None \<Rightarrow> None
                    | Some r1 \<Rightarrow> pointset_at s1 (basemesh r1))
          in (case (RegMapping E s1 this, bm) of
                (Some mp, Some ps) \<Rightarrow>
                  (Some (if astIsAUnitMap E mp then ps else astTransform E mp ps True), s1)
              | _ \<Rightarrow> (None, s1)))"

text \<open>The \<open>astConvert\<close> method of a Region: both arguments are Regions in
  \<open>OverlapX\<close>, and their current Frames are the ones converted.\<close>

definition Convert :: "('f, 'm, 'fs) env \<Rightarrow> 'fs state \<Rightarrow> nat \<Rightarrow> nat \<Rightarrow> 'fs option" where
  "Convert E s from to =
     (if \<not> astOK s then None
      else case (regions s from, regions s to) of
        (Some rf, Some rt) \<Rightarrow>
          (case (frameset_at s (frameset rf), frameset_at s (frameset rt)) of
             (Some ff, Some ft) \<Rightarrow>
               frmConvert E (astGetFrame E ff AST__CURRENT) (astGetFrame E ft AST__CURRENT)
           | _ \<Rightarrow> None)
      | _ \<Rightarrow> None)"

definition RegCurBox ::
  "('f, 'm, 'fs) env \<Rightarrow> nat \<Rightarrow> 'fs state \<Rightarrow> (double list \<times> double list) option \<times> 'fs state" where
  "RegCurBox E this s =
     (if \<not> astOK s then (None, s)
      else case regions s this of
        None \<Rightarrow> (None, s)
      | Some r \<Rightarrow>
          (case frameset_at s (frameset r) of
             None \<Rightarrow> (None, s)
           | Some fs \<Rightarrow>
               let ncur = nat (fsGetNout E fs)
               in (case astRegBaseBox E s this of
                     Inl e \<Rightarrow> (None, astError e s)
                   | Inr (lbndb, ubndb) \<Rightarrow>
                       (case RegMapping E s this of
                          None \<Rightarrow> (None, s)
                        | Some smap \<Rightarrow>
                            if astIsAUnitMap E smap
                            then (Some (map (\<lambda>i. lbndb ! i) [0..<ncur],
                                        map (\<lambda>i. ubndb ! i) [0..<ncur]), s)
                            else (Some (map (\<lambda>i. fst (astMapBox E smap lbndb ubndb i)) [0..<ncur],
                                        map (\<lambda>i. snd (astMapBox E smap lbndb ubndb i)) [0..<ncur]),
                                  s)))))"

section \<open>Masking\<close>

text \<open>
  The check of the grid bounds: the first axis, if any, whose lower bound exceeds its
  upper bound. The arrays have \<open>ndim\<close> elements.
\<close>

definition bad_bounds :: "int \<Rightarrow> int list \<Rightarrow> int list \<Rightarrow> bool" where
  "bad_bounds ndim lbnd ubnd =
     list_ex (\<lambda>(l, u). l > u) (zip (take (nat ndim) lbnd) (take (nat ndim) ubnd))"

text \<open>
  The part of \<open>Mask<X>\<close> that runs once all checks have passed. \<open>resample\<close> is
  \<open>astResample<X>\<close> on the Region, the grid bounds, the input array, the value, the bounds
  of the box and the output array; it yields its count and the output array. The bounds
  and the counts \<open>npix\<close>, \<open>npixg\<close> and \<open>result\<close> are of type \<open>int\<close>, so every
  operation on them wraps. The allocation of the temporary array is taken to succeed.
\<close>

definition Mask_fill ::
  "('fs state \<Rightarrow> nat \<Rightarrow> int \<Rightarrow> int list \<Rightarrow> int list \<Rightarrow> 'x list \<Rightarrow> 'x
      \<Rightarrow> int list \<Rightarrow> int list \<Rightarrow> 'x list \<Rightarrow> int \<times> 'x list)
     \<Rightarrow> ('f, 'm, 'fs) env \<Rightarrow> nat \<Rightarrow> int \<Rightarrow> int \<Rightarrow> int list \<Rightarrow> int list \<Rightarrow> 'x list \<Rightarrow> 'x
     \<Rightarrow> 'fs state \<Rightarrow> (int \<times> 'x list) \<times> 'fs state" where
  "Mask_fill resample E used_region inside ndim lbnd ubnd inarr val s =
     (case RegCurBox E used_region s of
        (None, s1) \<Rightarrow> ((0, inarr), s1)
      | (Some (lbndgd, ubndgd), s1) \<Rightarrow>
          let dims = [0..<nat ndim];
              lbndg = map (\<lambda>i. max (lbnd ! i) (int32 (dnint (lbndgd ! i) - 2))) dims;
              ubndg = map (\<lambda>i. min (ubnd ! i) (int32 (dnint (ubndgd ! i) + 2))) dims;
              npix = foldl (\<lambda>n i. int32 (n * int32 (int32 (ubnd ! i - lbnd ! i) + 1))) 1 dims;
              npixg = foldl (\<lambda>n i. int32 (n * int32 (int32 (ubndg ! i - lbndg ! i) + 1))) 1
                        dims;
              use_tmp = ((inside \<noteq> 0) = (GetNegated s1 used_region \<noteq> 0));
              result = (if use_tmp then int32 (npix - npixg) else 0);
              out = (if use_tmp then replicate (nat npix) val else inarr);
              s2 = (if inside \<noteq> 0 then Negate used_region s1 else s1)
          in (case resample s2 used_region ndim lbnd ubnd inarr val lbndg ubndg out of
                (n, out1) \<Rightarrow>
                  let s3 = (if inside \<noteq> 0 then Negate used_region s2 else s2)
                  in ((int32 (result + n), out1), s3)))"

text \<open>
  The Region that \<open>Mask<X>\<close> goes on to use: the supplied Region re-expressed in grid
  coordinates when a Mapping is given, the supplied Region itself otherwise, or \<open>NULL\<close>
  after a failed check of the numbers of axes.
\<close>

definition Mask_region ::
  "nat \<Rightarrow> ('f, 'm, 'fs) env \<Rightarrow> nat \<Rightarrow> 'm option \<Rightarrow> int \<Rightarrow> 'fs state
     \<Rightarrow> (nat option \<times> 'fs state) option" where
  "Mask_region fuel E this map_arg ndim s =
     (let nax = GetNaxes E s this
      in (case map_arg of
            Some m \<Rightarrow>
              let s1 = (if astOK s \<and> nax \<noteq> astGetNin E m
                        then astError AST__NGDIN (astError AST__NGDIN s) else s);
                  s2 = (if astOK s1 \<and> ndim \<noteq> astGetNout E m
                        then astError AST__NGDIN (astError AST__NGDIN s1) else s1)
              in MapRegion fuel E this m (astFrame E ndim ''Domain=grid'') s2
          | None \<Rightarrow>
              if astOK s \<and> (ndim \<noteq> nax \<or> ndim < 1)
              then Some (None,
                         if ndim \<noteq> nax
                         then astError AST__NGDIN (astError AST__NGDIN s)
                         else astError AST__NGDIN s)
              else Some (Some this, s)))"

definition Mask ::
  "('fs state \<Rightarrow> nat \<Rightarrow> int \<Rightarrow> int list \<Rightarrow> int list \<Rightarrow> 'x list \<Rightarrow> 'x
      \<Rightarrow> int list \<Rightarrow> int list \<Rightarrow> 'x list \<Rightarrow> int \<times> 'x list)
     \<Rightarrow> nat \<Rightarrow> ('f, 'm, 'fs) env \<Rightarrow> nat \<Rightarrow> 'm option \<Rightarrow> int \<Rightarrow> int \<Rightarrow> int list \<Rightarrow> int list
     \<Rightarrow> 'x list \<Rightarrow> 'x \<Rightarrow> 'fs state \<Rightarrow> ((int \<times> 'x list) \<times> 'fs state) option" where
  "Mask resample fuel E this map_arg inside ndim lbnd ubnd inarr val s =
     (if \<not> astOK s then Some ((0, inarr), s)
      else (case Mask_region fuel E this map_arg ndim s of
              None \<Rightarrow> None
            | Some (used_region, s3) \<Rightarrow>
                let s4 = (if astOK s3 \<and> bad_bounds ndim lbnd ubnd
                          then astError AST__GBDIN (astError AST__GBDIN s3) else s3)
                in if \<not> astOK s4 then Some ((0, inarr), s4)
                   else (case used_region of
                           None \<Rightarrow> Some ((0, inarr), s4)
                         | Some ur \<Rightarrow>
                             (case Mask_fill resample E ur inside ndim lbnd ubnd inarr val s4 of
                                ((result, out), s5) \<Rightarrow>
                                  Some (if \<not> astOK s5 then (0, inarr) else (result, out), s5)))))"

section \<open>Overlap\<close>

text \<open>
  Does the Region have a boundary of finite length: is it bounded, or bounded once
  negated? \<open>OverlapX\<close> does this for each of its two arguments in turn.
\<close>

definition finite_boundary ::
  "('f, 'm, 'fs) env \<Rightarrow> nat \<Rightarrow> 'fs state \<Rightarrow> int \<times> 'fs state" where
  "finite_boundary E p s =
     (let bnd = astGetBounded E s p
      in if bnd = 0
         then (let s1 = Negate p s
               in (astGetBounded E s1 p, Negate p s1))
         else (bnd, s))"

text \<open>The two flags of the loop over the axis values of the tested mesh, with its two
  \<open>break\<close>s out of the loop over the points of one axis.\<close>

fun scan_axis :: "double list \<Rightarrow> bool \<times> bool \<Rightarrow> bool \<times> bool" where
  "scan_axis [] fl = fl"
| "scan_axis (v # vs) (allbad, allgood) =
     (if deq v AST__BAD
      then (if \<not> allbad then (allbad, False) else scan_axis vs (allbad, False))
      else (if \<not> allgood then (False, allgood) else scan_axis vs (False, allgood)))"

definition scan_mesh :: "AstPointSet \<Rightarrow> bool \<times> bool" where
  "scan_mesh ps = foldl (\<lambda>fl ax. scan_axis (take (npoint ps) ax) fl) (True, True) (ptr ps)"

text \<open>
  The classification once the mesh of the second Region is known to lie neither wholly
  on the boundary of the first. \<open>ps2\<close> is that mesh after the first Region has been
  applied to it as a Mapping.
\<close>

definition OverlapX_classify ::
  "('f, 'm, 'fs) env \<Rightarrow> nat \<Rightarrow> nat \<Rightarrow> int \<Rightarrow> 'm \<Rightarrow> AstPointSet \<Rightarrow> 'fs state \<Rightarrow> int \<times> 'fs state" where
  "OverlapX_classify E reg1 reg2 bnd1 cmap ps2 s =
     (if \<not> astOK s then (0, s)
      else case scan_mesh ps2 of
        (allbad, allgood) \<Rightarrow>
          if allgood then (if astGetBounded E s reg2 \<noteq> 0 then 3 else 4, s)
          else if \<not> allbad then (4, s)
          else if astGetBounded E s reg1 = 0
          then (if astGetBounded E s reg2 \<noteq> 0 then 1 else 2, s)
          else if bnd1 = 0 then (0, astError AST__INTER s)
          else (case RegMesh E reg1 s of
                  (None, s1) \<Rightarrow> (0, s1)
                | (Some reg1_mesh, s1) \<Rightarrow>
                    let ps3 = astTransform E cmap reg1_mesh False;
                        ps4 = regTransform E s1 reg2 ps3
                    in (case ptr ps4 of
                          (v # vs) # axs \<Rightarrow> (if deq v AST__BAD then 1 else 2, s1)
                        | _ \<Rightarrow> (0, s1))))"

text \<open>The body of \<open>OverlapX\<close> from the call of \<open>astConvert\<close> to the release of its
  resources; \<open>None\<close> means that a copy inside \<open>astMapRegion\<close> ran out of fuel.\<close>

definition OverlapX_mesh ::
  "nat \<Rightarrow> ('f, 'm, 'fs) env \<Rightarrow> nat \<Rightarrow> nat \<Rightarrow> int \<Rightarrow> 'fs state \<Rightarrow> (int \<times> 'fs state) option" where
  "OverlapX_mesh fuel E reg1 reg2 bnd1 s =
     (case Convert E s reg2 reg1 of
        None \<Rightarrow> Some (0, s)
      | Some fs \<Rightarrow>
          (case regions s reg1 of
             None \<Rightarrow> Some (0, s)
           | Some r1 \<Rightarrow>
               (case frameset_at s (frameset r1) of
                  None \<Rightarrow> Some (0, s)
                | Some fs1 \<Rightarrow>
                    let frm_reg1 = astGetFrame E fs1 AST__CURRENT;
                        map_reg1 = astGetMapping E fs1 AST__CURRENT AST__BASE;
                        cmap = astGetMapping E fs AST__BASE AST__CURRENT;
                        mp = astCmpMap E cmap map_reg1
                    in (case RegMesh E reg2 s of
                          (None, s1) \<Rightarrow> Some (0, s1)
                        | (Some reg2_mesh, s1) \<Rightarrow>
                            let ps1 = astTransform E mp reg2_mesh True
                            in (case GetUnc fuel E reg2 AST__CURRENT s1 of
                                  None \<Rightarrow> None
                                | Some (None, s2) \<Rightarrow> Some (0, s2)
                                | Some (Some u, s2) \<Rightarrow>
                                    (case MapRegion fuel E u mp frm_reg1 s2 of
                                       None \<Rightarrow> None
                                     | Some (unc1, s3) \<Rightarrow>
                                         if \<not> astOK s3 then Some (0, s3)
                                         else if astRegPins E s3 reg1 ps1 unc1 \<noteq> 0
                                         then Some (if astGetBounded E s3 reg1
                                                         = astGetBounded E s3 reg2
                                                    then 5 else 6, s3)
                                         else Some (OverlapX_classify E reg1 reg2 bnd1 cmap
                                                      (regTransform E s3 reg1
                                                         (astTransform E cmap reg2_mesh True))
                                                      s3)))))))"

definition OverlapX ::
  "nat \<Rightarrow> ('f, 'm, 'fs) env \<Rightarrow> nat \<Rightarrow> nat \<Rightarrow> 'fs state \<Rightarrow> (int \<times> 'fs state) option" where
  "OverlapX fuel E that this s =
     (if \<not> astOK s then Some (0, s)
      else if Equal E s this that \<noteq> 0 then Some (5, s)
      else
        let s1 = Negate this s;
            result = Equal E s1 this that;
            s2 = Negate this s1
        in if result \<noteq> 0 then Some (6, s2)
           else (case finite_boundary E this s2 of
                   (bnd_this, s3) \<Rightarrow>
                     (case finite_boundary E that s3 of
                        (bnd_that, s4) \<Rightarrow>
                          let s5 = (if bnd_this = 0 \<and> bnd_that = 0 \<and> astOK s4
                                    then astError AST__INTER (astError AST__INTER s4)
                                    else s4);
                              reg1 = (if bnd_that \<noteq> 0 then this else that);
                              reg2 = (if bnd_that \<noteq> 0 then that else this);
                              bnd1 = (if bnd_that \<noteq> 0 then bnd_this else bnd_that)
                          in (case OverlapX_mesh fuel E reg1 reg2 bnd1 s5 of
                                None \<Rightarrow> None
                              | Some (res, s6) \<Rightarrow>
                                  let res1 = (if reg1 = that
                                              then (if res = 2 then 3
                                                    else if res = 3 then 2 else res)
                                              else res)
                                  in Some (if \<not> astOK s6 then 0 else res1, s6)))))"

text \<open>\<open>Overlap\<close> calls the virtual \<open>astOverlapX\<close> with its two arguments swapped.\<close>

definition Overlap ::
  "nat \<Rightarrow> ('f, 'm, 'fs) env \<Rightarrow> nat \<Rightarrow> nat \<Rightarrow> 'fs state \<Rightarrow> (int \<times> 'fs state) option" where
  "Overlap fuel E this that s =
     (if \<not> astOK s then Some (0, s) else OverlapX fuel E that this s)"

section \<open>Fuel, fresh addresses and the default uncertainty box\<close>

text \<open>
  \<open>unc_chain k s p\<close>: the Regions reached from \<open>p\<close> through the \<open>unc\<close> pointers
  lie at allocated addresses and the chain ends within \<open>k\<close> steps. This is the fuel that
  a copy of \<open>p\<close> needs.
\<close>

primrec unc_chain :: "nat \<Rightarrow> 'fs state \<Rightarrow> nat \<Rightarrow> bool" where
  "unc_chain 0 s p = False"
| "unc_chain (Suc k) s p =
     (p < next_free s
      \<and> (case regions s p of
            None \<Rightarrow> True
          | Some r \<Rightarrow> (case unc r of None \<Rightarrow> True | Some u \<Rightarrow> unc_chain k s u)))"

text \<open>A pointer that is \<open>NULL\<close> or an address from \<open>n\<close> on.\<close>

definition ptr_ge :: "nat \<Rightarrow> nat option \<Rightarrow> bool" where
  "ptr_ge n x = (case x of None \<Rightarrow> True | Some a \<Rightarrow> n \<le> a)"

text \<open>
  Modelled from the spec: the Box class (\<open>box.c\<close>) is not among the sources. A Box
  given by its centre and one corner reaches, on each axis, from the centre minus
  \<open>|corner - centre|\<close> to the centre plus it, so that is its half-width; the
  diagonal of a box is the Euclidean length of its extents.
\<close>

definition box_halfwidth :: "real list \<Rightarrow> real list \<Rightarrow> real list" where
  "box_halfwidth centre corner = map (\<lambda>(c, p). \<bar>p - c\<bar>) (zip centre corner)"

definition diagonal :: "real list \<Rightarrow> real" where
  "diagonal ext = sqrt (sum_list (map (\<lambda>e. e * e) ext))"

text \<open>
  Modelled from the spec: the Box class (\<open>box.c\<close>) is not among the sources. A Box
  keeps the two points it was built from in its PointSet, the centre first and the
  corner second. \<open>Box_halfwidths\<close> and \<open>Box_diagonal\<close> read the half-widths and the
  diagonal of the Box at address \<open>b\<close> from there.
\<close>

definition dreal :: "double \<Rightarrow> real" where
  "dreal d = (case d of Finite x \<Rightarrow> x | _ \<Rightarrow> 0)"

definition Box_points :: "'fs state \<Rightarrow> nat \<Rightarrow> AstPointSet option" where
  "Box_points s b =
     (case regions s b of None \<Rightarrow> None | Some rb \<Rightarrow> pointset_at s (points rb))"

definition Box_centre :: "'fs state \<Rightarrow> nat \<Rightarrow> double list" where
  "Box_centre s b =
     (case Box_points s b of None \<Rightarrow> [] | Some ps \<Rightarrow> map (\<lambda>ax. ax ! 0) (ptr ps))"

definition Box_corner :: "'fs state \<Rightarrow> nat \<Rightarrow> double list" where
  "Box_corner s b =
     (case Box_points s b of None \<Rightarrow> [] | Some ps \<Rightarrow> map (\<lambda>ax. ax ! 1) (ptr ps))"

definition Box_halfwidths :: "'fs state \<Rightarrow> nat \<Rightarrow> real list" where
  "Box_halfwidths s b =
     box_halfwidth (map dreal (Box_centre s b)) (map dreal (Box_corner s b))"

definition Box_diagonal :: "'fs state \<Rightarrow> nat \<Rightarrow> real" where
  "Box_diagonal s b = diagonal (map (\<lambda>h. 2 * h) (Box_halfwidths s b))"

text \<open>
  Relations between a state and a later one, used in the proofs about copies: \<open>keeps\<close>
  says that every object allocated in the first state is unchanged in the second,
  \<open>keeps_but q\<close> allows the Region at \<open>q\<close> to differ, and \<open>below n\<close> speaks of the
  addresses under \<open>n\<close> only. \<open>copy_inv\<close> describes the Region under construction at
  \<open>q\<close>: its components that are not pointers are those of \<open>r0\<close>, and each of its
  pointers is \<open>NULL\<close> or an address allocated from \<open>n\<close> on.
\<close>

definition keeps :: "'fs state \<Rightarrow> 'fs state \<Rightarrow> bool" where
  "keeps s t =
     (next_free s \<le> next_free t \<and> status t = status s \<and> reports t = reports s
      \<and> (\<forall>p<next_free s. regions t p = regions s p \<and> framesets t p = framesets s p
             \<and> pointsets t p = pointsets s p))"

definition keeps_but :: "nat \<Rightarrow> 'fs state \<Rightarrow> 'fs state \<Rightarrow> bool" where
  "keeps_but q s t =
     (next_free s \<le> next_free t \<and> status t = status s \<and> reports t = reports s
      \<and> (\<forall>p<next_free s. (p \<noteq> q \<longrightarrow> regions t p = regions s p)
             \<and> framesets t p = framesets s p \<and> pointsets t p = pointsets s p))"

definition below :: "nat \<Rightarrow> 'fs state \<Rightarrow> 'fs state \<Rightarrow> bool" where
  "below n s t =
     (\<forall>p<n. regions t p = regions s p \<and> framesets t p = framesets s p
             \<and> pointsets t p = pointsets s p)"

definition nonptr :: "AstRegion \<Rightarrow> AstRegion" where
  "nonptr r = r\<lparr>frameset := None, points := None, basemesh := None, unc := None\<rparr>"

definition fresh_in :: "nat \<Rightarrow> 'fs state \<Rightarrow> nat option \<Rightarrow> bool" where
  "fresh_in n t x = (case x of None \<Rightarrow> True | Some a \<Rightarrow> n \<le> a \<and> a < next_free t)"

definition copy_inv ::
  "nat \<Rightarrow> nat \<Rightarrow> AstRegion \<Rightarrow> 'fs option \<Rightarrow> AstPointSet option \<Rightarrow> 'fs state \<Rightarrow> bool" where
  "copy_inv n q r0 F P t =
     (astOK t \<and> q < next_free t \<and>
      (\<exists>r'. regions t q = Some r' \<and> nonptr r' = nonptr r0
         \<and> fresh_in n t (frameset r') \<and> fresh_in n t (points r')
         \<and> fresh_in n t (basemesh r') \<and> fresh_in n t (unc r')
         \<and> frameset_at t (frameset r') = F \<and> pointset_at t (points r') = P))"

section \<open>A concrete environment\<close>

text \<open>
  A small instance of the collaborators, used to run the model on concrete Regions.
  A Frame is its number of axes and a Mapping is a number: \<open>0\<close> is the UnitMap,
  \<open>2\<close> has no inverse transformation and \<open>3\<close> no forward one. A FrameSet is its
  base Frame, its current Frame and the Mapping between them. The distance along an axis
  is the difference of the two doubles. Class \<open>Interval\<close> overrides
  \<open>astGetBounded\<close> and is never bounded. The Box constructor allocates a Region of
  class Box with its own FrameSet and a PointSet that holds the two points.
\<close>

definition flat_env :: "(nat, nat, nat \<times> nat \<times> nat) env" where
  "flat_env =
     \<lparr> astGetFrame = (\<lambda>fs i. case i of AST__BASE \<Rightarrow> fst fs | _ \<Rightarrow> fst (snd fs)),
       astGetMapping = (\<lambda>fs i j. if i = j then 0 else snd (snd fs)),
       astGetCurrent = (\<lambda>fs. 2),
       astGetBase = (\<lambda>fs. 1),
       astSetBase = (\<lambda>fs i. fs),
       astInvert = (\<lambda>fs. (fst (snd fs), fst fs, snd (snd fs))),
       astAddFrame = (\<lambda>fs i m f.
          Inr (fst fs, f, if snd (snd fs) = 0 then m else if m = 0 then snd (snd fs) else 1)),
       astRemoveFrame = (\<lambda>fs i. Inr fs),
       fsGetNin = (\<lambda>fs. int (fst fs)),
       fsGetNout = (\<lambda>fs. int (fst (snd fs))),
       fsConvert = (\<lambda>a b.
          (if fst (snd a) = fst (snd b) then Some (fst (snd a), fst (snd b), 0) else None, a, b)),
       frmConvert = (\<lambda>f g. if f = g then Some (f, g, 0) else None),
       frmGetNaxes = int,
       astAxDistance = (\<lambda>f i a b.
          case (a, b) of (Finite x, Finite y) \<Rightarrow> round64 (y - x) | _ \<Rightarrow> NaN),
       astFrame = (\<lambda>n d. nat n),
       astGetTranForward = (\<lambda>m. m \<noteq> 3),
       astGetTranInverse = (\<lambda>m. m \<noteq> 2),
       astGetNin = (\<lambda>m. 2),
       astGetNout = (\<lambda>m. 2),
       astSimplify = (\<lambda>m. m),
       astIsAUnitMap = (\<lambda>m. m = 0),
       astCmpMap = (\<lambda>a b. if a = 0 then b else if b = 0 then a else 1),
       astTransform = (\<lambda>m ps fwd. ps),
       astMapBox = (\<lambda>m lb ub i. (lb ! i, ub ! i)),
       ptEqual = (=),
       frmEqual = (=),
       mapEqual = (=),
       astIsA = (=),
       GetBounded_override = (\<lambda>c. if c = ''Interval'' then Some (\<lambda>s p. 0) else None),
       astRegBaseBox = (\<lambda>s p. Inr ([Finite (- 1), Finite (- 1)], [Finite 1, Finite 1])),
       astRegBaseMesh = (\<lambda>s p. \<lparr>npoint = 1, ptr = [[Finite 1], [Finite 0]]\<rparr>),
       astRegPins = (\<lambda>s p ps u. 0),
       regTransform = (\<lambda>s p ps. ps),
       astRegCentre = (\<lambda>p c s. s),
       astBox = (\<lambda>f form c p u s.
          (Some (next_free s),
           s\<lparr>regions := (regions s)(next_free s \<mapsto>
                  \<lparr> class_name = ''Box'', frameset = Some (next_free s + 1),
                    points = Some (next_free s + 2), basemesh = None, unc = None, defunc = 1,
                    negated = - INT_MAX, closed_attr = - INT_MAX, meshsize = - INT_MAX,
                    fillfactor = AST__BAD, regionfs = - INT_MAX \<rparr>),
             framesets := (framesets s)(next_free s + 1 \<mapsto> (f, f, 0)),
             pointsets := (pointsets s)(next_free s + 2 \<mapsto>
                  \<lparr>npoint = 2, ptr = map (\<lambda>(a, b). [a, b]) (zip c p)\<rparr>),
             next_free := next_free s + 3\<rparr>)) \<rparr>"

text \<open>A Region of class Circle over a two-dimensional Frame, with every attribute
  unset, and a store that holds it at address \<open>0\<close> with its FrameSet at address \<open>1\<close>.\<close>

definition circle0 :: AstRegion where
  "circle0 =
     \<lparr> class_name = ''Circle'', frameset = Some 1, points = None, basemesh = None,
       unc = None, defunc = 1, negated = - INT_MAX, closed_attr = - INT_MAX,
       meshsize = - INT_MAX, fillfactor = AST__BAD, regionfs = - INT_MAX \<rparr>"

definition store0 :: "(nat \<times> nat \<times> nat) state" where
  "store0 =
     \<lparr> status = None, reports = [], regions = [0 \<mapsto> circle0],
       framesets = [1 \<mapsto> (2, 2, 0)], pointsets = Map.empty, next_free = 2 \<rparr>"

text \<open>The same Region over a FrameSet whose base-to-current Mapping is not a UnitMap.\<close>

definition store_mapped :: "(nat \<times> nat \<times> nat) state" where
  "store_mapped = store0\<lparr>framesets := [1 \<mapsto> (2, 2, 1)]\<rparr>"

text \<open>The Region at address \<open>0\<close> and, at address \<open>2\<close>, a copy of it that has been
  negated; the copy has its own FrameSet at address \<open>3\<close>.\<close>

definition store_pair :: "(nat \<times> nat \<times> nat) state" where
  "store_pair =
     \<lparr> status = None, reports = [],
       regions = [0 \<mapsto> circle0, 2 \<mapsto> circle0\<lparr>frameset := Some 3, negated := 1\<rparr>],
       framesets = [1 \<mapsto> (2, 2, 0), 3 \<mapsto> (2, 2, 0)], pointsets = Map.empty,
       next_free = 4 \<rparr>"

text \<open>The Region at address \<open>0\<close> with a Box at address \<open>4\<close> as its stored
  uncertainty, and a Region of class PointList at address \<open>6\<close>.\<close>

definition store_unc :: "(nat \<times> nat \<times> nat) state" where
  "store_unc =
     \<lparr> status = None, reports = [],
       regions = [0 \<mapsto> circle0\<lparr>unc := Some 4, defunc := 0\<rparr>,
                  4 \<mapsto> circle0\<lparr>class_name := ''Box'', frameset := Some 5\<rparr>,
                  6 \<mapsto> circle0\<lparr>class_name := ''PointList'', frameset := Some 7\<rparr>],
       framesets = [1 \<mapsto> (2, 2, 0), 5 \<mapsto> (2, 2, 0), 7 \<mapsto> (2, 2, 0)],
       pointsets = Map.empty, next_free = 8 \<rparr>"

section \<open>Regions of the plane\<close>

text \<open>
  A second instance of the collaborators, in which the primitives of the concrete shapes
  compute with the geometry of the plane. The PointSet of a Region holds the origin and
  a point \<open>(e, 0)\<close>, as that of a Circle holds its centre and a point of its
  circumference, and the Region is the closed disc of radius \<open>e\<close> about the origin, or
  the closed outside of that disc when the Region is negated. The Region used as a
  Mapping keeps the points inside it and sets the others to \<open>AST__BAD\<close>,
  \<open>astRegPins\<close> asks whether every point lies on the circle, the mesh is the four points
  where the circle meets the axes, and the bounding box is that of the disc.
\<close>

definition plane_radius :: "'fs state \<Rightarrow> nat \<Rightarrow> real" where
  "plane_radius s p =
     (case regions s p of
        None \<Rightarrow> 0
      | Some r \<Rightarrow>
          (case pointset_at s (points r) of
             None \<Rightarrow> 0
           | Some ps \<Rightarrow> (case ptr ps of (c # Finite e # rest) # axs \<Rightarrow> e | _ \<Rightarrow> 0)))"

definition plane_inside :: "'fs state \<Rightarrow> nat \<Rightarrow> double \<times> double \<Rightarrow> bool" where
  "plane_inside s p xy =
     (case xy of
        (Finite a, Finite b) \<Rightarrow>
          (if GetNegated s p \<noteq> 0
           then plane_radius s p * plane_radius s p \<le> a * a + b * b
           else a * a + b * b \<le> plane_radius s p * plane_radius s p)
      | _ \<Rightarrow> False)"

definition plane_on_edge :: "'fs state \<Rightarrow> nat \<Rightarrow> double \<times> double \<Rightarrow> bool" where
  "plane_on_edge s p xy =
     (case xy of
        (Finite a, Finite b) \<Rightarrow> a * a + b * b = plane_radius s p * plane_radius s p
      | _ \<Rightarrow> False)"

definition plane_env :: "(nat, nat, nat \<times> nat \<times> nat) env" where
  "plane_env =
     flat_env
     \<lparr> astRegBaseBox := (\<lambda>s p.
          Inr ([Finite (- plane_radius s p), Finite (- plane_radius s p)],
               [Finite (plane_radius s p), Finite (plane_radius s p)])),
       astRegBaseMesh := (\<lambda>s p.
          \<lparr>npoint = 4,
           ptr = [[Finite (plane_radius s p), Finite 0, Finite (- plane_radius s p), Finite 0],
                  [Finite 0, Finite (plane_radius s p), Finite 0,
                   Finite (- plane_radius s p)]]\<rparr>),
       astRegPins := (\<lambda>s p ps u.
          case ptr ps of
            [xs, ys] \<Rightarrow> if list_all (plane_on_edge s p) (zip xs ys) then 1 else 0
          | _ \<Rightarrow> 0),
       regTransform := (\<lambda>s p ps.
          case ptr ps of
            [xs, ys] \<Rightarrow>
              ps\<lparr>ptr := [map (\<lambda>xy. if plane_inside s p xy then fst xy else AST__BAD)
                            (zip xs ys),
                         map (\<lambda>xy. if plane_inside s p xy then snd xy else AST__BAD)
                            (zip xs ys)]\<rparr>
          | _ \<Rightarrow> ps) \<rparr>"

text \<open>
  Two Regions of class Circle, both negated: the outside of the unit disc at address
  \<open>0\<close> and the outside of the disc of radius \<open>2\<close> at address \<open>3\<close>. Every point of
  the second lies in the first.
\<close>

definition store_discs :: "(nat \<times> nat \<times> nat) state" where
  "store_discs =
     \<lparr> status = None, reports = [],
       regions = [0 \<mapsto> circle0\<lparr>points := Some 2, negated := 1\<rparr>,
                  3 \<mapsto> circle0\<lparr>frameset := Some 4, points := Some 5, negated := 1\<rparr>],
       framesets = [1 \<mapsto> (2, 2, 0), 4 \<mapsto> (2, 2, 0)],
       pointsets = [2 \<mapsto> \<lparr>npoint = 2, ptr = [[Finite 0, Finite 1], [Finite 0, Finite 0]]\<rparr>,
                    5 \<mapsto> \<lparr>npoint = 2, ptr = [[Finite 0, Finite 2], [Finite 0, Finite 0]]\<rparr>],
       next_free = 6 \<rparr>"

section \<open>The fast path as the specification words it\<close>

text \<open>
  The condition of the first fast path of \<open>Overlap\<close> in the words of the
  specification: same class, equal defining points, equal base Frames, equal current
  Frames, a base-to-current Mapping that reduces to the identity, and the same Negated
  and Closed values.
\<close>

definition spec_fast_path :: "('f, 'm, 'fs) env \<Rightarrow> 'fs state \<Rightarrow> nat \<Rightarrow> nat \<Rightarrow> bool" where
  "spec_fast_path E s A B =
     (case (regions s A, regions s B) of
        (Some a, Some b) \<Rightarrow>
          (case (frameset_at s (frameset a), frameset_at s (frameset b)) of
             (Some fa, Some fb) \<Rightarrow>
               class_name a = class_name b
               \<and> ptEqual E (pointset_at s (points a)) (pointset_at s (points b))
               \<and> frmEqual E (astGetFrame E fa AST__BASE) (astGetFrame E fb AST__BASE)
               \<and> frmEqual E (astGetFrame E fa AST__CURRENT) (astGetFrame E fb AST__CURRENT)
               \<and> astIsAUnitMap E (astSimplify E (astGetMapping E fa AST__BASE AST__CURRENT))
               \<and> astIsAUnitMap E (astSimplify E (astGetMapping E fb AST__BASE AST__CURRENT))
               \<and> GetNegated s A = GetNegated s B
               \<and> GetClosed s A = GetClosed s B
           | _ \<Rightarrow> False)
      | _ \<Rightarrow> False)"

section \<open>Properties of the attributes\<close>

lemma DBL_MAX_pos: "0 < DBL_MAX"
  by (simp add: DBL_MAX_def)

text \<open>
  With the error status clear, \<open>SetFillFactor\<close> refuses every value that compares
  below 0 or above 1: it reports the value-range error \<open>AST__ATSER\<close> twice and leaves
  the store of Regions, and so the stored fillfactor, as it was. \<open>GetFillFactor\<close>
  returns \<open>1.0\<close> whenever the component holds the unset marker \<open>AST__BAD\<close>.
\<close>

lemma SetFillFactor_out_of_range:
  "astOK s \<and> regions s this = Some r \<and> (dlt v (Finite 0) \<or> dlt (Finite 1) v) \<longrightarrow>
     status (SetFillFactor this v s) = Some AST__ATSER
     \<and> reports (SetFillFactor this v s) = reports s @ [AST__ATSER, AST__ATSER]
     \<and> regions (SetFillFactor this v s) = regions s
     \<and> (deq (fillfactor r) AST__BAD \<longrightarrow> GetFillFactor s this = Finite 1)"
  by (auto simp: SetFillFactor_def GetFillFactor_def upd_region_def astError_def astOK_def)

text \<open>
  C7. A NaN is a value outside the range \<open>[0,1]\<close> that compares neither below 0 nor
  above 1. \<open>SetFillFactor\<close> called with it on the Region of \<open>store0\<close> reports no
  error and overwrites the stored fillfactor, which \<open>GetFillFactor\<close> then returns;
  called with the value 2 it reports \<open>AST__ATSER\<close>. \<open>GetFillFactor\<close> returns
  \<open>1.0\<close> for the unset component of \<open>store0\<close>.
\<close>

theorem SetFillFactor_accepts_NaN:
  "astOK (SetFillFactor 0 NaN store0)
     \<and> reports (SetFillFactor 0 NaN store0) = []
     \<and> regions (SetFillFactor 0 NaN store0) 0 = Some (circle0\<lparr>fillfactor := NaN\<rparr>)
     \<and> GetFillFactor (SetFillFactor 0 NaN store0) 0 = NaN
     \<and> status (SetFillFactor 0 (Finite 2) store0) = Some AST__ATSER
     \<and> regions (SetFillFactor 0 (Finite 2) store0) = regions store0
     \<and> GetFillFactor store0 0 = Finite 1"
  by (simp add: SetFillFactor_def GetFillFactor_def upd_region_def astError_def astOK_def
        store0_def circle0_def AST__BAD_def)

text \<open>
  C8. With the error status clear and the MeshSize component unset, \<open>GetMeshSize\<close>
  returns 2 for a Region of one axis, 200 for a Region of two axes and 2000 for a Region
  of three or more axes. \<open>SetMeshSize\<close> stores 5 when the supplied value is less than
  5 and the supplied value otherwise.
\<close>

theorem MeshSize_default_and_floor:
  "astOK s \<and> regions s this = Some r \<longrightarrow>
     (meshsize r = - INT_MAX \<longrightarrow>
        (GetNaxes E s this = 1 \<longrightarrow> GetMeshSize E s this = 2)
        \<and> (GetNaxes E s this = 2 \<longrightarrow> GetMeshSize E s this = 200)
        \<and> (3 \<le> GetNaxes E s this \<longrightarrow> GetMeshSize E s this = 2000))
     \<and> regions (SetMeshSize this v s) this
         = Some (r\<lparr>basemesh := None, meshsize := (if v < 5 then 5 else v)\<rparr>)"
  by (auto simp: GetMeshSize_def SetMeshSize_def upd_region_def astOK_def)

theorem MeshSize_default_and_floor_witness:
  "astOK store0 \<and> regions store0 0 = Some circle0 \<and> meshsize circle0 = - INT_MAX
     \<and> GetNaxes flat_env store0 0 = 2 \<and> GetMeshSize flat_env store0 0 = 200
     \<and> regions (SetMeshSize 0 3 store0) 0 = Some (circle0\<lparr>basemesh := None, meshsize := 5\<rparr>)"
proof -
  have h: "astOK store0 \<and> regions store0 0 = Some circle0"
    by (simp add: store0_def astOK_def)
  have n: "GetNaxes flat_env store0 0 = 2"
    by (simp add: GetNaxes_def store0_def astOK_def circle0_def flat_env_def)
  have m: "meshsize circle0 = - INT_MAX"
    by (simp add: circle0_def)
  show ?thesis
    using h n m MeshSize_default_and_floor [of store0 0 circle0 flat_env 3]
    by simp
qed

section \<open>Basic facts about the store\<close>

lemma astOK_astError [simp]: "\<not> astOK (astError c s)"
  by (simp add: astOK_def astError_def)

lemma upd_frameset_simps [simp]:
  "regions (upd_frameset p f s) = regions s"
  "status (upd_frameset p f s) = status s"
  "reports (upd_frameset p f s) = reports s"
  by (auto simp: upd_frameset_def split: option.splits)

lemma astOK_upd_frameset [simp]: "astOK (upd_frameset p f s) = astOK s"
  by (simp add: astOK_def)

lemma upd_region_simps [simp]:
  "framesets (upd_region p f s) = framesets s"
  "status (upd_region p f s) = status s"
  "reports (upd_region p f s) = reports s"
  "pointsets (upd_region p f s) = pointsets s"
  "next_free (upd_region p f s) = next_free s"
  by (auto simp: upd_region_def split: option.splits)

lemma astOK_upd_region [simp]: "astOK (upd_region p f s) = astOK s"
  by (simp add: astOK_def)

lemma frameset_at_upd_region [simp]: "frameset_at (upd_region p f s) a = frameset_at s a"
  by (simp add: frameset_at_def split: option.splits)

lemma pointset_at_upd_region [simp]: "pointset_at (upd_region p f s) a = pointset_at s a"
  by (simp add: pointset_at_def split: option.splits)

lemma SetNegated_simps [simp]:
  "status (SetNegated p v s) = status s"
  "framesets (SetNegated p v s) = framesets s"
  "pointsets (SetNegated p v s) = pointsets s"
  "reports (SetNegated p v s) = reports s"
  "next_free (SetNegated p v s) = next_free s"
  by (auto simp: SetNegated_def)

lemma Negate_simps [simp]:
  "status (Negate p s) = status s"
  "framesets (Negate p s) = framesets s"
  "pointsets (Negate p s) = pointsets s"
  "reports (Negate p s) = reports s"
  "next_free (Negate p s) = next_free s"
  by (auto simp: Negate_def)

lemma astOK_Negate [simp]: "astOK (Negate p s) = astOK s"
  by (simp add: astOK_def)

lemma regions_Negate:
  "astOK s \<Longrightarrow> regions s p = Some r \<Longrightarrow>
   regions (Negate p s)
     = (regions s)(p \<mapsto> r\<lparr>negated := (if GetNegated s p \<noteq> 0 then 0 else 1)\<rparr>)"
  by (auto simp: Negate_def SetNegated_def upd_region_def)

lemma astCopyRegion_not_ok: "\<not> astOK s \<Longrightarrow> astCopyRegion n p s = Some (None, s)"
  by (cases n) simp_all

section \<open>The fast paths of Overlap\<close>

lemma Equal_iff:
  "astOK s \<Longrightarrow> regions s A = Some a \<Longrightarrow> regions s B = Some b \<Longrightarrow>
   frameset_at s (frameset a) = Some fa \<Longrightarrow> frameset_at s (frameset b) = Some fb \<Longrightarrow>
   (Equal E s A B \<noteq> 0) =
          (class_name a = class_name b
           \<and> ptEqual E (pointset_at s (points a)) (pointset_at s (points b))
           \<and> frmEqual E (astGetFrame E fa AST__BASE) (astGetFrame E fb AST__BASE)
           \<and> frmEqual E (astGetFrame E fa AST__CURRENT) (astGetFrame E fb AST__CURRENT)
           \<and> mapEqual E (astGetMapping E fa AST__BASE AST__CURRENT)
                         (astGetMapping E fb AST__BASE AST__CURRENT)
           \<and> GetNegated s A = GetNegated s B
           \<and> GetClosed s A = GetClosed s B)"
  by (simp add: Equal_def)

text \<open>
  C1. Called with the error status clear on a Region \<open>R\<close> whose Negated component is
  unset, 0 or 1, and with a collaborator \<open>astEqual\<close> that finds the PointSet, the Frames
  and the Mapping of \<open>R\<close> equal to themselves, \<open>Overlap(R, R)\<close> returns 5 and leaves
  the state as it was. If \<open>N\<close> is a negated copy of \<open>R\<close> (same class, equal PointSet and
  FrameSet, same Closed component, and the Negated value that \<open>astNegate\<close> gives a copy
  of \<open>R\<close>), then \<open>Overlap(R, N)\<close> returns 6, the Negated attribute of \<open>R\<close> has its
  original value after the call, and nothing but the Region \<open>R\<close> has been written.
\<close>

theorem Overlap_self_and_negation:
  "astOK s \<and> regions s R = Some r \<and> frameset_at s (frameset r) = Some fr
     \<and> (negated r = - INT_MAX \<or> negated r = 0 \<or> negated r = 1)
     \<and> ptEqual E (pointset_at s (points r)) (pointset_at s (points r))
     \<and> frmEqual E (astGetFrame E fr AST__BASE) (astGetFrame E fr AST__BASE)
     \<and> frmEqual E (astGetFrame E fr AST__CURRENT) (astGetFrame E fr AST__CURRENT)
     \<and> mapEqual E (astGetMapping E fr AST__BASE AST__CURRENT)
                   (astGetMapping E fr AST__BASE AST__CURRENT)
   \<longrightarrow> Overlap fuel E R R s = Some (5, s)
       \<and> (regions s N = Some n \<and> class_name n = class_name r
            \<and> pointset_at s (points n) = pointset_at s (points r)
            \<and> frameset_at s (frameset n) = Some fr
            \<and> closed_attr n = closed_attr r
            \<and> negated n = (if GetNegated s R \<noteq> 0 then 0 else 1)
          \<longrightarrow> (\<exists>s'. Overlap fuel E R N s = Some (6, s')
                  \<and> GetNegated s' R = GetNegated s R
                  \<and> (\<forall>p. p \<noteq> R \<longrightarrow> regions s' p = regions s p)
                  \<and> framesets s' = framesets s \<and> pointsets s' = pointsets s
                  \<and> status s' = status s))"
proof (intro impI conjI; (elim conjE)?)
  assume ok: "astOK s" and r: "regions s R = Some r"
    and fr: "frameset_at s (frameset r) = Some fr"
    and eqs: "ptEqual E (pointset_at s (points r)) (pointset_at s (points r))"
     "frmEqual E (astGetFrame E fr AST__BASE) (astGetFrame E fr AST__BASE)"
     "frmEqual E (astGetFrame E fr AST__CURRENT) (astGetFrame E fr AST__CURRENT)"
     "mapEqual E (astGetMapping E fr AST__BASE AST__CURRENT)
                   (astGetMapping E fr AST__BASE AST__CURRENT)"
  show "Overlap fuel E R R s = Some (5, s)"
    using ok r fr eqs by (simp add: Overlap_def OverlapX_def Equal_def)
next
  assume ok: "astOK s" and r: "regions s R = Some r"
    and fr: "frameset_at s (frameset r) = Some fr"
    and ng: "negated r = - INT_MAX \<or> negated r = 0 \<or> negated r = 1"
    and eqs: "ptEqual E (pointset_at s (points r)) (pointset_at s (points r))"
     "frmEqual E (astGetFrame E fr AST__BASE) (astGetFrame E fr AST__BASE)"
     "frmEqual E (astGetFrame E fr AST__CURRENT) (astGetFrame E fr AST__CURRENT)"
     "mapEqual E (astGetMapping E fr AST__BASE AST__CURRENT)
                   (astGetMapping E fr AST__BASE AST__CURRENT)"
    and n: "regions s N = Some n" "class_name n = class_name r"
      "pointset_at s (points n) = pointset_at s (points r)"
      "frameset_at s (frameset n) = Some fr" "closed_attr n = closed_attr r"
      "negated n = (if GetNegated s R \<noteq> 0 then 0 else 1)"
  define g where "g = GetNegated s R"
  have g01: "g = 0 \<or> g = 1"
    using ng ok r by (auto simp: g_def GetNegated_def INT_MAX_def)
  have gN: "GetNegated s N = (if g \<noteq> 0 then 0 else 1)"
    using ok n by (auto simp: GetNegated_def g_def INT_MAX_def)
  have NR: "N \<noteq> R"
    using gN g01 by (auto simp: g_def)
  have e0: "Equal E s R N = 0"
    using Equal_iff [OF ok r n(1) fr n(4), of E] gN g01 by (auto simp: g_def)
  define s1 where "s1 = Negate R s"
  define s2 where "s2 = Negate R s1"
  define r1 where "r1 = r\<lparr>negated := (if g \<noteq> 0 then 0 else 1)\<rparr>"
  have rs1: "regions s1 = (regions s)(R \<mapsto> r1)"
    using regions_Negate [OF ok r] by (simp add: s1_def r1_def g_def)
  have ok1: "astOK s1" by (simp add: s1_def ok)
  have g1: "GetNegated s1 R = (if g \<noteq> 0 then 0 else 1)"
    using ok1 rs1 by (auto simp: GetNegated_def r1_def INT_MAX_def)
  have g1N: "GetNegated s1 N = (if g \<noteq> 0 then 0 else 1)"
    using ok1 rs1 NR n gN ok by (auto simp: GetNegated_def)
  have cl: "GetClosed s1 R = GetClosed s1 N"
    using ok1 rs1 NR n by (auto simp: GetClosed_def r1_def)
  have fs1: "frameset_at s1 = frameset_at s" "pointset_at s1 = pointset_at s"
    by (auto simp: s1_def frameset_at_def pointset_at_def fun_eq_iff split: option.splits)
  have e1: "Equal E s1 R N \<noteq> 0"
    using Equal_iff [OF ok1, of R r1 N n fr fr E] rs1 NR n fr eqs g1 g1N cl fs1
    by (simp add: r1_def)
  have rs2: "regions s2
      = (regions s1)(R \<mapsto> r1\<lparr>negated := (if GetNegated s1 R \<noteq> 0 then 0 else 1)\<rparr>)"
    using regions_Negate [OF ok1, of R r1] rs1 by (simp add: s2_def)
  have ok2: "astOK s2" by (simp add: s2_def ok1)
  have g2: "GetNegated s2 R = g"
    using ok2 rs2 g1 g01 by (auto simp: GetNegated_def INT_MAX_def)
  have ov: "Overlap fuel E R N s = Some (6, s2)"
    using ok e0 e1 by (simp add: Overlap_def OverlapX_def Let_def s1_def s2_def)
  have "\<forall>p. p \<noteq> R \<longrightarrow> regions s2 p = regions s p"
    using rs2 rs1 by simp
  moreover have "framesets s2 = framesets s \<and> pointsets s2 = pointsets s
                   \<and> status s2 = status s"
    by (simp add: s2_def s1_def)
  ultimately show "\<exists>s'. Overlap fuel E R N s = Some (6, s')
                  \<and> GetNegated s' R = GetNegated s R
                  \<and> (\<forall>p. p \<noteq> R \<longrightarrow> regions s' p = regions s p)
                  \<and> framesets s' = framesets s \<and> pointsets s' = pointsets s
                  \<and> status s' = status s"
    using ov g2 by (auto simp: g_def)
qed

lemma store_pair_facts:
  "astOK store_pair" "regions store_pair 0 = Some circle0"
  "regions store_pair 2 = Some (circle0\<lparr>frameset := Some 3, negated := 1\<rparr>)"
  "frameset_at store_pair (Some 1) = Some (2, 2, 0)"
  "frameset_at store_pair (Some 3) = Some (2, 2, 0)"
  "GetNegated store_pair 0 = 0"
  by (simp_all add: store_pair_def astOK_def frameset_at_def GetNegated_def circle0_def)

theorem Overlap_self_and_negation_witness:
  "astOK store_pair \<and> regions store_pair 0 = Some circle0
     \<and> negated circle0 = - INT_MAX
     \<and> Overlap 0 flat_env 0 0 store_pair = Some (5, store_pair)
     \<and> regions store_pair 2 = Some (circle0\<lparr>frameset := Some 3, negated := 1\<rparr>)
     \<and> (\<exists>s'. Overlap 0 flat_env 0 2 store_pair = Some (6, s')
            \<and> GetNegated s' 0 = GetNegated store_pair 0)"
proof -
  have h: "astOK store_pair \<and> regions store_pair 0 = Some circle0
     \<and> frameset_at store_pair (frameset circle0) = Some (2, 2, 0)
     \<and> (negated circle0 = - INT_MAX \<or> negated circle0 = 0 \<or> negated circle0 = 1)
     \<and> ptEqual flat_env (pointset_at store_pair (points circle0))
                         (pointset_at store_pair (points circle0))
     \<and> frmEqual flat_env (astGetFrame flat_env (2, 2, 0) AST__BASE)
                          (astGetFrame flat_env (2, 2, 0) AST__BASE)
     \<and> frmEqual flat_env (astGetFrame flat_env (2, 2, 0) AST__CURRENT)
                          (astGetFrame flat_env (2, 2, 0) AST__CURRENT)
     \<and> mapEqual flat_env (astGetMapping flat_env (2, 2, 0) AST__BASE AST__CURRENT)
                          (astGetMapping flat_env (2, 2, 0) AST__BASE AST__CURRENT)"
    using store_pair_facts by (simp add: circle0_def flat_env_def)
  have k: "regions store_pair 2 = Some (circle0\<lparr>frameset := Some 3, negated := 1\<rparr>)
     \<and> class_name (circle0\<lparr>frameset := Some 3, negated := 1\<rparr>) = class_name circle0
     \<and> pointset_at store_pair (points (circle0\<lparr>frameset := Some 3, negated := 1\<rparr>))
         = pointset_at store_pair (points circle0)
     \<and> frameset_at store_pair (frameset (circle0\<lparr>frameset := Some 3, negated := 1\<rparr>))
         = Some (2, 2, 0)
     \<and> closed_attr (circle0\<lparr>frameset := Some 3, negated := 1\<rparr>) = closed_attr circle0
     \<and> negated (circle0\<lparr>frameset := Some 3, negated := 1\<rparr>)
         = (if GetNegated store_pair 0 \<noteq> 0 then 0 else 1)"
    using store_pair_facts by simp
  have n: "negated circle0 = - INT_MAX" by (simp add: circle0_def)
  show ?thesis
    using h k n
      Overlap_self_and_negation [of store_pair 0 circle0 "(2, 2, 0)" flat_env 0 2
         "circle0\<lparr>frameset := Some 3, negated := 1\<rparr>"]
    by blast
qed

text \<open>
  C3, as the specification states it, fails: a Region whose base-to-current Mapping is
  not a UnitMap is still equal to itself, so \<open>Overlap\<close> takes the first fast path and
  returns 5 although no Mapping reduces to the identity.
\<close>

theorem Overlap_fast_path_counterexample:
  "Equal flat_env store_mapped 0 0 \<noteq> 0
     \<and> Overlap 0 flat_env 0 0 store_mapped = Some (5, store_mapped)
     \<and> \<not> spec_fast_path flat_env store_mapped 0 0"
  by (simp add: Overlap_def OverlapX_def Equal_def spec_fast_path_def store_mapped_def
        store0_def astOK_def frameset_at_def pointset_at_def circle0_def flat_env_def)

text \<open>
  C3, amended. With the error status clear, \<open>Overlap(A, B)\<close> takes its first fast path
  (the test \<open>Equal(A, B)\<close> succeeds) exactly when \<open>A\<close> and \<open>B\<close> have the same class,
  equal PointSets, equal base Frames, equal current Frames, base-to-current Mappings
  that \<open>astEqual\<close> finds equal to each other, and the same Negated and Closed
  values; it then returns 5 and leaves the state as it was.
\<close>

theorem Overlap_first_fast_path:
  "astOK s \<and> regions s A = Some a \<and> regions s B = Some b
     \<and> frameset_at s (frameset a) = Some fa \<and> frameset_at s (frameset b) = Some fb
   \<longrightarrow> ((Equal E s A B \<noteq> 0) =
          (class_name a = class_name b
           \<and> ptEqual E (pointset_at s (points a)) (pointset_at s (points b))
           \<and> frmEqual E (astGetFrame E fa AST__BASE) (astGetFrame E fb AST__BASE)
           \<and> frmEqual E (astGetFrame E fa AST__CURRENT) (astGetFrame E fb AST__CURRENT)
           \<and> mapEqual E (astGetMapping E fa AST__BASE AST__CURRENT)
                         (astGetMapping E fb AST__BASE AST__CURRENT)
           \<and> GetNegated s A = GetNegated s B
           \<and> GetClosed s A = GetClosed s B))
       \<and> (Equal E s A B \<noteq> 0 \<longrightarrow> Overlap fuel E A B s = Some (5, s))"
  using Equal_iff [of s A a B b fa fb E]
  by (simp add: Overlap_def OverlapX_def)

theorem Overlap_first_fast_path_witness:
  "astOK store_mapped \<and> regions store_mapped 0 = Some circle0
     \<and> frameset_at store_mapped (frameset circle0) = Some (2, 2, 1)
     \<and> Equal flat_env store_mapped 0 0 \<noteq> 0
     \<and> mapEqual flat_env (astGetMapping flat_env (2, 2, 1) AST__BASE AST__CURRENT)
                          (astGetMapping flat_env (2, 2, 1) AST__BASE AST__CURRENT)
     \<and> Overlap 3 flat_env 0 0 store_mapped = Some (5, store_mapped)"
proof -
  have h: "astOK store_mapped \<and> regions store_mapped 0 = Some circle0
     \<and> frameset_at store_mapped (frameset circle0) = Some (2, 2, 1)"
    by (simp add: store_mapped_def store0_def astOK_def frameset_at_def circle0_def)
  have e: "class_name circle0 = class_name circle0
     \<and> ptEqual flat_env (pointset_at store_mapped (points circle0))
                         (pointset_at store_mapped (points circle0))
     \<and> frmEqual flat_env (astGetFrame flat_env (2, 2, 1) AST__BASE)
                          (astGetFrame flat_env (2, 2, 1) AST__BASE)
     \<and> frmEqual flat_env (astGetFrame flat_env (2, 2, 1) AST__CURRENT)
                          (astGetFrame flat_env (2, 2, 1) AST__CURRENT)
     \<and> mapEqual flat_env (astGetMapping flat_env (2, 2, 1) AST__BASE AST__CURRENT)
                          (astGetMapping flat_env (2, 2, 1) AST__BASE AST__CURRENT)"
    by (simp add: flat_env_def)
  show ?thesis
    using h e
      Overlap_first_fast_path [of store_mapped 0 circle0 0 circle0 "(2, 2, 1)" "(2, 2, 1)"
        flat_env 3]
    by simp
qed

section \<open>MapRegion and a Mapping that lacks a direction\<close>

text \<open>
  C4. Called with the error status clear and a Mapping that lacks its forward or its
  inverse transformation, \<open>MapRegion\<close> returns \<open>NULL\<close>, whatever the Region and the
  Frame; the error status is then \<open>AST__NODEF\<close>, that code has been reported once, and
  no Region has been written.
\<close>

theorem MapRegion_missing_direction:
  "astOK s \<and> (\<not> astGetTranForward E m \<or> \<not> astGetTranInverse E m) \<longrightarrow>
     MapRegion fuel E this m frame s = Some (None, astError AST__NODEF s)
     \<and> status (astError AST__NODEF s) = Some AST__NODEF
     \<and> reports (astError AST__NODEF s) = reports s @ [AST__NODEF]
     \<and> regions (astError AST__NODEF s) = regions s"
  by (auto simp: MapRegion_def astCopyRegion_not_ok Let_def) (simp_all add: astError_def)

theorem MapRegion_missing_direction_witness:
  "astOK store0 \<and> \<not> astGetTranInverse flat_env 2
     \<and> MapRegion 1 flat_env 0 2 2 store0 = Some (None, astError AST__NODEF store0)
     \<and> status (astError AST__NODEF store0) = Some AST__NODEF"
proof -
  have h: "astOK store0
     \<and> (\<not> astGetTranForward flat_env 2 \<or> \<not> astGetTranInverse flat_env 2)"
    by (simp add: store0_def astOK_def flat_env_def)
  have i: "\<not> astGetTranInverse flat_env 2"
    by (simp add: flat_env_def)
  show ?thesis
    using h i MapRegion_missing_direction [of store0 flat_env 2 1 0 2]
    by simp
qed

section \<open>SetUnc on its error paths\<close>

lemma Conv_simps [simp]:
  "regions (snd (Conv E a b s)) = regions s"
  "status (snd (Conv E a b s)) = status s"
  "reports (snd (Conv E a b s)) = reports s"
  by (auto simp: Conv_def Let_def split: option.splits prod.splits)

lemma SetUnc_convert_simps [simp]:
  "regions (snd (SetUnc_convert E a b s)) = regions s"
  "status (snd (SetUnc_convert E a b s)) = status s"
  "reports (snd (SetUnc_convert E a b s)) = reports s"
  by (auto simp: SetUnc_convert_def split: prod.splits)
   (metis Conv_simps snd_conv upd_frameset_simps)+

lemma upd_frameset_upd_region:
  "upd_frameset a g (upd_region p f s) = upd_region p f (upd_frameset a g s)"
  by (auto simp: upd_frameset_def upd_region_def split: option.splits)

lemma Conv_upd_region:
  "fst (Conv E a b (upd_region p f s)) = fst (Conv E a b s)"
  by (auto simp: Conv_def Let_def split: option.splits prod.splits)

lemma SetUnc_convert_upd_region:
  "fst (SetUnc_convert E a b (upd_region p f s)) = fst (SetUnc_convert E a b s)"
  using Conv_upd_region [of E b a p f "upd_frameset a (astInvert E) s"]
  by (auto simp: SetUnc_convert_def upd_frameset_upd_region split: prod.splits)

lemma SetUnc_convert_ok [simp]: "astOK (snd (SetUnc_convert E a b s)) = astOK s"
  by (simp add: astOK_def)

text \<open>
  C10. \<open>SetUnc\<close> is called with the error status clear on a Region whose stored
  uncertainty pointer, if any, addresses an object. When the supplied uncertainty is not
  a Box, Circle or Ellipse, or when no conversion between the Frames is found, the call
  ends with the error status \<open>AST__NCPIN\<close> after reporting \<open>AST__BADIN\<close> and
  \<open>AST__NCPIN\<close>, and the Region is left with no stored uncertainty and with the
  uncertainty marked as a default: the previous uncertainty is not kept.
\<close>

theorem SetUnc_failure_clears_uncertainty:
  "astOK s \<and> regions s this = Some r
     \<and> (case unc r of None \<Rightarrow> True | Some old \<Rightarrow> regions s old \<noteq> None)
     \<and> regions s u = Some ur
     \<and> (\<not> (astIsA E (class_name ur) ''Box'' \<or> astIsA E (class_name ur) ''Circle''
             \<or> astIsA E (class_name ur) ''Ellipse'')
         \<or> fst (SetUnc_convert E (frameset r) (frameset ur) s) = None)
   \<longrightarrow> (\<exists>s'. SetUnc fuel E this (Some u) s = Some s'
           \<and> status s' = Some AST__NCPIN
           \<and> reports s' = reports s @ [AST__BADIN, AST__NCPIN]
           \<and> (\<exists>r'. regions s' this = Some r' \<and> unc r' = None \<and> defunc r' = 1))"
proof (intro impI, elim conjE)
  assume ok: "astOK s" and rt: "regions s this = Some r"
    and old: "case unc r of None \<Rightarrow> True | Some old \<Rightarrow> regions s old \<noteq> None"
    and ru: "regions s u = Some ur"
    and bad: "\<not> (astIsA E (class_name ur) ''Box'' \<or> astIsA E (class_name ur) ''Circle''
             \<or> astIsA E (class_name ur) ''Ellipse'')
         \<or> fst (SetUnc_convert E (frameset r) (frameset ur) s) = None"
  define g where "g = (\<lambda>r::AstRegion. r\<lparr>unc := (case unc r of None \<Rightarrow> None
                           | Some u \<Rightarrow> if regions s u \<noteq> None then None else Some u),
                         defunc := 1\<rparr>)"
  define s1 where "s1 = upd_region this g s"
  have g_r: "unc (g r) = None" "defunc (g r) = 1" "class_name (g r) = class_name r"
    "frameset (g r) = frameset r"
    using old by (auto simp: g_def split: option.splits)
  have r1: "regions s1 this = Some (g r)"
    by (simp add: s1_def upd_region_def rt)
  obtain ur1 where u1: "regions s1 u = Some ur1" "class_name ur1 = class_name ur"
      "frameset ur1 = frameset ur"
    using ru rt g_r by (cases "u = this") (auto simp: s1_def upd_region_def)
  have ok1: "astOK s1" by (simp add: s1_def ok)
  have rep1: "reports s1 = reports s" by (simp add: s1_def)
  have conv: "fst (SetUnc_convert E (frameset r) (frameset ur) s1)
                = fst (SetUnc_convert E (frameset r) (frameset ur) s)"
    by (simp add: s1_def SetUnc_convert_upd_region)
  have unf: "SetUnc fuel E this (Some u) s =
      (if astIsA E (class_name ur) ''Box'' \<or> astIsA E (class_name ur) ''Circle''
                          \<or> astIsA E (class_name ur) ''Ellipse''
       then (case SetUnc_convert E (frameset r) (frameset ur) s1 of
                            (Some f2, s4) \<Rightarrow>
                              (case MapRegion fuel E u
                                      (astGetMapping E f2 AST__BASE AST__CURRENT)
                                      (astGetFrame E f2 AST__CURRENT) s4 of
                                 None \<Rightarrow> None
                               | Some (nu, s5) \<Rightarrow> Some (SetUnc_store E this nu s5))
                          | (None, s4) \<Rightarrow>
                              Some (if astOK s4
                                    then astError AST__NCPIN (astError AST__BADIN s4)
                                    else s4))
       else Some (astError AST__NCPIN (astError AST__BADIN s1)))"
    using ok rt u1 ok1 by (simp add: SetUnc_def Let_def s1_def [symmetric] g_def [symmetric])
  show "\<exists>s'. SetUnc fuel E this (Some u) s = Some s'
           \<and> status s' = Some AST__NCPIN
           \<and> reports s' = reports s @ [AST__BADIN, AST__NCPIN]
           \<and> (\<exists>r'. regions s' this = Some r' \<and> unc r' = None \<and> defunc r' = 1)"
  proof (cases "astIsA E (class_name ur) ''Box'' \<or> astIsA E (class_name ur) ''Circle''
                          \<or> astIsA E (class_name ur) ''Ellipse''")
    case False
    then show ?thesis
      using unf r1 g_r rep1 by (simp add: astError_def)
  next
    case True
    with bad conv have none: "fst (SetUnc_convert E (frameset r) (frameset ur) s1) = None"
      by simp
    obtain s4 where c: "SetUnc_convert E (frameset r) (frameset ur) s1 = (None, s4)"
      using none by (cases "SetUnc_convert E (frameset r) (frameset ur) s1") auto
    have s4: "regions s4 = regions s1" "astOK s4" "reports s4 = reports s1"
      using SetUnc_convert_simps [of E "frameset r" "frameset ur" s1]
            SetUnc_convert_ok [of E "frameset r" "frameset ur" s1] ok1 c by simp_all
    show ?thesis
      using unf True c s4 r1 g_r rep1 by (simp add: astError_def)
  qed
qed

theorem SetUnc_failure_clears_uncertainty_witness:
  "astOK store_unc
     \<and> regions store_unc 0 = Some (circle0\<lparr>unc := Some 4, defunc := 0\<rparr>)
     \<and> regions store_unc 4 \<noteq> None
     \<and> regions store_unc 6 = Some (circle0\<lparr>class_name := ''PointList'', frameset := Some 7\<rparr>)
     \<and> (\<exists>s'. SetUnc 1 flat_env 0 (Some 6) store_unc = Some s'
            \<and> status s' = Some AST__NCPIN
            \<and> (\<exists>r'. regions s' 0 = Some r' \<and> unc r' = None \<and> defunc r' = 1))"
proof -
  have h: "astOK store_unc
     \<and> regions store_unc 0 = Some (circle0\<lparr>unc := Some 4, defunc := 0\<rparr>)
     \<and> (case unc (circle0\<lparr>unc := Some 4, defunc := 0\<rparr>) of
           None \<Rightarrow> True | Some old \<Rightarrow> regions store_unc old \<noteq> None)
     \<and> regions store_unc 6 = Some (circle0\<lparr>class_name := ''PointList'', frameset := Some 7\<rparr>)
     \<and> (\<not> (astIsA flat_env
              (class_name (circle0\<lparr>class_name := ''PointList'', frameset := Some 7\<rparr>)) ''Box''
            \<or> astIsA flat_env
              (class_name (circle0\<lparr>class_name := ''PointList'', frameset := Some 7\<rparr>)) ''Circle''
            \<or> astIsA flat_env
              (class_name (circle0\<lparr>class_name := ''PointList'', frameset := Some 7\<rparr>)) ''Ellipse'')
         \<or> fst (SetUnc_convert flat_env (frameset (circle0\<lparr>unc := Some 4, defunc := 0\<rparr>))
                  (frameset (circle0\<lparr>class_name := ''PointList'', frameset := Some 7\<rparr>))
                  store_unc) = None)"
    by (simp add: store_unc_def astOK_def flat_env_def)
  have v: "regions store_unc 4 \<noteq> None"
    by (simp add: store_unc_def)
  show ?thesis
    using h v
      SetUnc_failure_clears_uncertainty [of store_unc 0 "circle0\<lparr>unc := Some 4, defunc := 0\<rparr>"
         6 "circle0\<lparr>class_name := ''PointList'', frameset := Some 7\<rparr>" flat_env 1]
    by blast
qed

section \<open>The default uncertainty\<close>

lemma sum_list_scale: "sum_list (map (\<lambda>e. (c * e) * (c * e)) xs) = (c * c) * sum_list (map (\<lambda>e. e * e) xs)"
  for c :: real
  by (induction xs) (simp_all add: algebra_simps)

lemma diagonal_scale: "diagonal (map (\<lambda>e. c * e) xs) = \<bar>c\<bar> * diagonal xs"
  by (simp add: diagonal_def comp_def sum_list_scale real_sqrt_mult)

lemma diagonal_abs: "diagonal (map abs xs) = diagonal xs"
  by (simp add: diagonal_def comp_def)

lemma box_halfwidth_origin:
  "box_halfwidth (replicate n 0) (map f [0..<n]) = map (\<lambda>i. \<bar>f i\<bar>) [0..<n]"
  by (rule nth_equalityI) (simp_all add: box_halfwidth_def)

lemma binade_numeral:
  "binade (numeral n) a e =
     (if a < 1 then binade (pred_numeral n) (2 * a) (e - 1)
      else if 2 \<le> a then binade (pred_numeral n) (a / 2) (e + 1)
      else e)"
  by (simp add: numeral_eq_Suc)

lemma round_even_close: "\<bar>of_int (round_even q) - q\<bar> \<le> 1 / 2"
  unfolding round_even_def Let_def by (auto simp: abs_if) linarith+

lemma binade_bounds:
  "2 powi (- int k) \<le> a \<Longrightarrow> a < 2 powi (int k + 1)
     \<Longrightarrow> 2 powi (binade k a e - e) \<le> a \<and> a < 2 powi (binade k a e - e + 1)"
proof (induction k arbitrary: a e)
  case 0
  then show ?case by simp
next
  case (Suc k)
  show ?case
  proof (cases "a < 1")
    case True
    have l: "2 powi (- int k) \<le> 2 * a"
      using Suc.prems(1) by (simp add: power_int_diff power_int_minus field_simps)
    have "(2::real) powi 1 \<le> 2 powi (int k + 1)"
      by (rule power_int_increasing) auto
    then have u: "2 * a < 2 powi (int k + 1)" using True by simp
    from Suc.IH [OF l u, of "e - 1"]
    have "2 powi (binade k (2 * a) (e - 1) - e + 1) \<le> 2 * a"
         "2 * a < 2 powi (binade k (2 * a) (e - 1) - e + 1 + 1)"
      by (simp_all add: algebra_simps)
    then show ?thesis using True by (simp add: power_int_add)
  next
    case False
    show ?thesis
    proof (cases "2 \<le> a")
      case True
      have "(2::real) powi (- int k) \<le> 2 powi 0"
        by (rule power_int_increasing) auto
      then have l: "2 powi (- int k) \<le> a / 2" using True by simp
      have u: "a / 2 < 2 powi (int k + 1)"
        using Suc.prems(2) by (simp add: power_int_add field_simps)
      from Suc.IH [OF l u, of "e + 1"]
      have "2 powi (binade k (a / 2) (e + 1) - e - 1) \<le> a / 2"
           "a / 2 < 2 powi (binade k (a / 2) (e + 1) - e - 1 + 1)"
        by (simp_all add: algebra_simps)
      then show ?thesis using True False by (simp add: power_int_add power_int_diff field_simps)
    next
      case F2: False
      then show ?thesis using False by simp
    qed
  qed
qed


lemma DBL_MAX_less: "DBL_MAX < 2 ^ 1024"
  by (simp add: DBL_MAX_def)

lemma round64_error:
  assumes lo: "2 powi (- 1022) \<le> \<bar>x\<bar>" and hi: "2 * \<bar>x\<bar> \<le> DBL_MAX"
  shows "\<exists>y. round64 x = Finite y \<and> \<bar>y - x\<bar> \<le> \<bar>x\<bar> / 2 ^ 53"
proof -
  define a where "a = \<bar>x\<bar>"
  define e0 where "e0 = binade 2200 a 0"
  define ulp :: real where "ulp = 2 powi (e0 - 52)"
  define y where "y = of_int (round_even (a / ulp)) * ulp"
  have apos: "0 < a" using lo zero_less_power_int [of "2::real" "- 1022"]
    unfolding a_def by linarith
  have "(2::real) powi (- int 2200) \<le> 2 powi (- 1022)"
    by (rule power_int_increasing) auto
  then have l: "2 powi (- int 2200) \<le> a" using lo by (simp add: a_def)
  have "a < 2 ^ 1024" using hi DBL_MAX_less apos by (simp add: a_def)
  also have "(2::real) ^ 1024 \<le> 2 powi (int 2200 + 1)"
    using power_int_increasing [of 1024 "int 2200 + 1" "2::real"] by simp
  finally have u: "a < 2 powi (int 2200 + 1)" .
  from binade_bounds [OF l u, of 0]
  have b: "2 powi e0 \<le> a" "a < 2 powi (e0 + 1)" by (simp_all add: e0_def)
  have ege: "- 1022 \<le> e0"
  proof (rule ccontr)
    assume "\<not> - 1022 \<le> e0"
    then have "e0 + 1 \<le> - 1022" by simp
    then have "(2::real) powi (e0 + 1) \<le> 2 powi (- 1022)"
      by (intro power_int_increasing) auto
    with b(2) lo show False by (simp add: a_def)
  qed
  have upos: "0 < ulp" by (simp add: ulp_def)
  have "\<bar>of_int (round_even (a / ulp)) - a / ulp\<bar> \<le> 1 / 2" by (rule round_even_close)
  then have "\<bar>of_int (round_even (a / ulp)) - a / ulp\<bar> * ulp \<le> 1 / 2 * ulp"
    using upos by (intro mult_right_mono) auto
  moreover have "(of_int (round_even (a / ulp)) - a / ulp) * ulp = y - a"
    using upos by (simp add: y_def left_diff_distrib)
  then have "\<bar>of_int (round_even (a / ulp)) - a / ulp\<bar> * ulp = \<bar>y - a\<bar>"
    using upos abs_mult [of "of_int (round_even (a / ulp)) - a / ulp" ulp] by simp
  ultimately have d: "\<bar>y - a\<bar> \<le> ulp / 2" by simp
  have "ulp / 2 = 2 powi e0 / 2 ^ 53"
    by (simp add: ulp_def power_int_diff)
  also have "\<dots> \<le> a / 2 ^ 53" using b(1) by (simp add: divide_right_mono)
  finally have r: "\<bar>y - a\<bar> \<le> a / 2 ^ 53" using d by simp
  have "a / 2 ^ 53 \<le> a" using apos by (simp add: field_simps)
  with r have "y \<le> 2 * a" by linarith
  with hi have nov: "\<not> DBL_MAX < y" by (simp add: a_def)
  have xn: "x \<noteq> 0" using apos by (simp add: a_def)
  have m: "max (- 1022) (binade 2200 \<bar>x\<bar> 0) = e0" using ege by (simp add: e0_def a_def)
  have res: "round64 x = Finite (if 0 < x then y else - y)"
    using xn nov unfolding round64_def Let_def m
    by (simp add: y_def ulp_def a_def)
  have "\<bar>(if 0 < x then y else - y) - x\<bar> = \<bar>y - a\<bar>"
    using xn by (auto simp: a_def abs_if)
  with r res show ?thesis by (simp add: a_def)
qed

lemma half_micro_val: "half_micro = Finite (4722366482869645 / 2 ^ 73)"
  by (simp add: half_micro_def round64_def binade_numeral round_even_def Let_def DBL_MAX_def)

lemma dmul_half_micro:
  assumes hi: "\<bar>x\<bar> \<le> DBL_MAX" and lo: "x = 0 \<or> 2 powi (- 1000) \<le> \<bar>x\<bar>"
  shows "\<exists>c. dmul half_micro (Finite x) = Finite c
             \<and> \<bar>c - 5 / 10 ^ 7 * x\<bar> \<le> 5 / 10 ^ 7 * \<bar>x\<bar> / 2 ^ 52"
proof (cases "x = 0")
  case True
  then show ?thesis by (simp add: half_micro_val round64_def)
next
  case False
  define hm :: real where "hm = 4722366482869645 / 2 ^ 73"
  have hm: "1 / 2 ^ 22 \<le> hm" "hm \<le> 1 / 2"
    "hm / 2 ^ 53 + (5 / 10 ^ 7 - hm) \<le> 5 / 10 ^ 7 / 2 ^ 52" "0 \<le> hm" "hm \<le> 5 / 10 ^ 7"
    by (simp_all add: hm_def)
  from False lo have l: "2 powi (- 1000) \<le> \<bar>x\<bar>" by simp
  have "(2::real) powi (- 1022) = 1 / 2 ^ 22 * 2 powi (- 1000)"
    by simp
  also have "\<dots> \<le> hm * \<bar>x\<bar>"
    using hm(1) l by (intro mult_mono) auto
  finally have lo': "2 powi (- 1022) \<le> \<bar>hm * x\<bar>" using hm(4) by (simp add: abs_mult)
  have "2 * \<bar>hm * x\<bar> = (2 * hm) * \<bar>x\<bar>" using hm(4) by (simp add: abs_mult)
  also have "\<dots> \<le> 1 * \<bar>x\<bar>" using hm(2) by (intro mult_right_mono) auto
  finally have hi': "2 * \<bar>hm * x\<bar> \<le> DBL_MAX" using hi by simp
  from round64_error [OF lo' hi'] obtain c where
    c: "round64 (hm * x) = Finite c" "\<bar>c - hm * x\<bar> \<le> \<bar>hm * x\<bar> / 2 ^ 53" by blast
  have "\<bar>c - 5 / 10 ^ 7 * x\<bar> \<le> \<bar>c - hm * x\<bar> + \<bar>(hm - 5 / 10 ^ 7) * x\<bar>"
    by (simp add: left_diff_distrib)
  also have "\<dots> \<le> \<bar>hm * x\<bar> / 2 ^ 53 + \<bar>(hm - 5 / 10 ^ 7) * x\<bar>" using c(2) by simp
  also have "\<dots> = (hm / 2 ^ 53 + (5 / 10 ^ 7 - hm)) * \<bar>x\<bar>"
  proof -
    have a1: "\<bar>hm * x\<bar> = hm * \<bar>x\<bar>" using hm(4) by (simp add: abs_mult)
    have "\<bar>hm - 5 / 10 ^ 7\<bar> = 5 / 10 ^ 7 - hm" using hm(5) by simp
    then have a2: "\<bar>(hm - 5 / 10 ^ 7) * x\<bar> = (5 / 10 ^ 7 - hm) * \<bar>x\<bar>"
      using abs_mult [of "hm - 5 / 10 ^ 7" x] by simp
    show ?thesis unfolding a1 a2 by (simp add: algebra_simps)
  qed
  also have "\<dots> \<le> 5 / 10 ^ 7 / 2 ^ 52 * \<bar>x\<bar>"
    using hm(3) by (intro mult_right_mono) auto
  finally have "\<bar>c - 5 / 10 ^ 7 * x\<bar> \<le> 5 / 10 ^ 7 * \<bar>x\<bar> / 2 ^ 52" by simp
  with c(1) show ?thesis by (simp add: half_micro_val hm_def)
qed

lemma diagonal_map: "diagonal (map f [0..<n]) = sqrt (sum_list (map (\<lambda>i. f i * f i) [0..<n]))"
  by (simp add: diagonal_def comp_def)

lemma diagonal_mono:
  assumes "\<forall>i<n. 0 \<le> f i \<and> f i \<le> g i"
  shows "diagonal (map f [0..<n]) \<le> diagonal (map g [0..<n])"
proof -
  have "sum_list (map (\<lambda>i. f i * f i) [0..<n]) \<le> sum_list (map (\<lambda>i. g i * g i) [0..<n])"
    using assms by (intro sum_list_mono mult_mono) auto
  then show ?thesis by (simp add: diagonal_map)
qed

lemma diagonal_scale_abs:
  "0 \<le> c \<Longrightarrow> diagonal (map (\<lambda>i. c * \<bar>f i\<bar>) [0..<n]) = c * diagonal (map f [0..<n])"
  using diagonal_scale [of c "map abs (map f [0..<n])"] diagonal_abs [of "map f [0..<n]"]
  by (simp add: comp_def)

lemma round64_two: "round64 2 = Finite 2"
  by (simp add: round64_def binade_numeral round_even_def Let_def DBL_MAX_def)

lemma dmul_half_micro_two: "dmul half_micro (Finite 2) = Finite (4722366482869645 / 2 ^ 72)"
  by (simp add: half_micro_val round64_def binade_numeral round_even_def Let_def DBL_MAX_def)

lemma DBL_MAX_large: "4 < DBL_MAX"
  by (simp add: DBL_MAX_def)

text \<open>
  C5. Let the error status be clear, let the class of the Region provide a bounding box
  in the base Frame whose extent on every axis, as \<open>astAxDistance\<close> measures it, is a
  double that is zero or not below \<open>2^(-1000)\<close> in magnitude, and let the Box
  constructor return a Box that keeps the centre and the corner it is given. Then
  \<open>GetDefUnc\<close> returns that Box; its centre is the origin of the base Frame, its corner
  is on every axis the product of the doubles \<open>0.5E-6\<close> and the extent, its half-width
  on every axis is \<open>5/10^7\<close> of the extent to within the relative error \<open>2^(-52)\<close> of
  the rounding, and its diagonal is \<open>1/10^6\<close> of the diagonal of the bounding box to
  within the same relative error.
\<close>

theorem GetDefUnc_default_box:
  "astOK s \<and> regions s this = Some r \<and> frameset_at s (frameset r) = Some fs
     \<and> astRegBaseBox E s this = Inr (lbnd, ubnd)
     \<and> bfrm = astGetFrame E fs AST__BASE \<and> nax = nat (frmGetNaxes E bfrm)
     \<and> (\<forall>i<nax. astAxDistance E bfrm (int i + 1) (lbnd ! i) (ubnd ! i) = Finite (ext i)
            \<and> \<bar>ext i\<bar> \<le> DBL_MAX \<and> (ext i = 0 \<or> 2 powi (- 1000) \<le> \<bar>ext i\<bar>))
     \<and> astBox E bfrm 0 (DefUnc_centre nax) (DefUnc_corner E bfrm nax lbnd ubnd) None s
          = (Some b, s1)
     \<and> astOK s1
     \<and> Box_centre s1 b = DefUnc_centre nax
     \<and> Box_corner s1 b = DefUnc_corner E bfrm nax lbnd ubnd
   \<longrightarrow> GetDefUnc E this s = (Some b, s1)
       \<and> Box_centre s1 b = replicate nax (Finite 0)
       \<and> length (Box_halfwidths s1 b) = nax
       \<and> (\<forall>i<nax. Box_corner s1 b ! i = dmul half_micro (Finite (ext i)))
       \<and> (\<forall>i<nax. \<bar>Box_halfwidths s1 b ! i - 5 / 10 ^ 7 * \<bar>ext i\<bar>\<bar>
                      \<le> 5 / 10 ^ 7 * \<bar>ext i\<bar> / 2 ^ 52)
       \<and> (1 - 1 / 2 ^ 52) * (diagonal (map ext [0..<nax]) / 10 ^ 6) \<le> Box_diagonal s1 b
       \<and> Box_diagonal s1 b \<le> (1 + 1 / 2 ^ 52) * (diagonal (map ext [0..<nax]) / 10 ^ 6)"
proof (intro impI, elim conjE)
  assume ok: "astOK s" and r: "regions s this = Some r"
    and fs: "frameset_at s (frameset r) = Some fs"
    and bb: "astRegBaseBox E s this = Inr (lbnd, ubnd)"
    and b: "bfrm = astGetFrame E fs AST__BASE" and n: "nax = nat (frmGetNaxes E bfrm)"
    and ax: "\<forall>i<nax. astAxDistance E bfrm (int i + 1) (lbnd ! i) (ubnd ! i) = Finite (ext i)
            \<and> \<bar>ext i\<bar> \<le> DBL_MAX \<and> (ext i = 0 \<or> 2 powi (- 1000) \<le> \<bar>ext i\<bar>)"
    and box: "astBox E bfrm 0 (DefUnc_centre nax) (DefUnc_corner E bfrm nax lbnd ubnd) None s
          = (Some b, s1)"
    and ok1: "astOK s1"
    and ce: "Box_centre s1 b = DefUnc_centre nax"
    and co: "Box_corner s1 b = DefUnc_corner E bfrm nax lbnd ubnd"
  define cs where "cs i = dreal (dmul half_micro (Finite (ext i)))" for i
  define t :: real where "t = 1 / 2 ^ 52"
  have res: "GetDefUnc E this s = (Some b, s1)"
    using ok r fs bb b n box ok1 by (simp add: GetDefUnc_def Let_def)
  have centre: "Box_centre s1 b = replicate nax (Finite 0)"
    using ce by (simp add: DefUnc_centre_def)
  have corner: "Box_corner s1 b = map (\<lambda>i. dmul half_micro (Finite (ext i))) [0..<nax]"
    using co ax by (simp add: DefUnc_corner_def)
  have close: "\<bar>cs i - 5 / 10 ^ 7 * ext i\<bar> \<le> 5 / 10 ^ 7 * \<bar>ext i\<bar> / 2 ^ 52" if "i < nax" for i
  proof -
    from ax that have "\<bar>ext i\<bar> \<le> DBL_MAX" "ext i = 0 \<or> 2 powi (- 1000) \<le> \<bar>ext i\<bar>"
      by simp_all
    from dmul_half_micro [OF this] show ?thesis by (auto simp: cs_def dreal_def)
  qed
  have c0: "map dreal (Box_centre s1 b) = replicate nax 0"
    by (simp add: centre dreal_def)
  have c1: "map dreal (Box_corner s1 b) = map cs [0..<nax]"
    by (simp add: corner cs_def)
  have hw: "Box_halfwidths s1 b = map (\<lambda>i. \<bar>cs i\<bar>) [0..<nax]"
    unfolding Box_halfwidths_def c0 c1 by (rule box_halfwidth_origin)
  have near: "\<bar>\<bar>cs i\<bar> - 5 / 10 ^ 7 * \<bar>ext i\<bar>\<bar> \<le> 5 / 10 ^ 7 * \<bar>ext i\<bar> / 2 ^ 52"
    if "i < nax" for i
  proof -
    have "\<bar>\<bar>cs i\<bar> - \<bar>5 / 10 ^ 7 * ext i\<bar>\<bar> \<le> \<bar>cs i - 5 / 10 ^ 7 * ext i\<bar>"
      by (rule abs_triangle_ineq3)
    with close [OF that] show ?thesis by (simp add: abs_mult)
  qed
  have dg: "Box_diagonal s1 b = diagonal (map (\<lambda>i. 2 * \<bar>cs i\<bar>) [0..<nax])"
    by (simp add: Box_diagonal_def hw comp_def)
  have tpos: "0 \<le> (1 - t) / 10 ^ 6" "0 \<le> (1 + t) / 10 ^ 6" by (simp_all add: t_def)
  have lower: "\<forall>i<nax. 0 \<le> (1 - t) / 10 ^ 6 * \<bar>ext i\<bar>
                  \<and> (1 - t) / 10 ^ 6 * \<bar>ext i\<bar> \<le> 2 * \<bar>cs i\<bar>"
  proof (intro allI impI conjI)
    fix i assume i: "i < nax"
    show "0 \<le> (1 - t) / 10 ^ 6 * \<bar>ext i\<bar>" using tpos(1) by (intro mult_nonneg_nonneg) auto
    from near [OF i] have "5 / 10 ^ 7 * \<bar>ext i\<bar> - 5 / 10 ^ 7 * \<bar>ext i\<bar> / 2 ^ 52 \<le> \<bar>cs i\<bar>"
      by linarith
    then show "(1 - t) / 10 ^ 6 * \<bar>ext i\<bar> \<le> 2 * \<bar>cs i\<bar>"
      by (simp add: t_def field_simps)
  qed
  have upper: "\<forall>i<nax. 0 \<le> 2 * \<bar>cs i\<bar> \<and> 2 * \<bar>cs i\<bar> \<le> (1 + t) / 10 ^ 6 * \<bar>ext i\<bar>"
  proof (intro allI impI conjI)
    fix i assume i: "i < nax"
    show "0 \<le> 2 * \<bar>cs i\<bar>" by simp
    from near [OF i] have "\<bar>cs i\<bar> \<le> 5 / 10 ^ 7 * \<bar>ext i\<bar> + 5 / 10 ^ 7 * \<bar>ext i\<bar> / 2 ^ 52"
      by linarith
    then show "2 * \<bar>cs i\<bar> \<le> (1 + t) / 10 ^ 6 * \<bar>ext i\<bar>"
      by (simp add: t_def field_simps)
  qed
  have lo: "(1 - 1 / 2 ^ 52) * (diagonal (map ext [0..<nax]) / 10 ^ 6) \<le> Box_diagonal s1 b"
    using diagonal_mono [OF lower] diagonal_scale_abs [OF tpos(1), of ext nax]
    by (simp add: dg t_def)
  have up: "Box_diagonal s1 b \<le> (1 + 1 / 2 ^ 52) * (diagonal (map ext [0..<nax]) / 10 ^ 6)"
    using diagonal_mono [OF upper] diagonal_scale_abs [OF tpos(2), of ext nax]
    by (simp add: dg t_def)
  show "GetDefUnc E this s = (Some b, s1)
       \<and> Box_centre s1 b = replicate nax (Finite 0)
       \<and> length (Box_halfwidths s1 b) = nax
       \<and> (\<forall>i<nax. Box_corner s1 b ! i = dmul half_micro (Finite (ext i)))
       \<and> (\<forall>i<nax. \<bar>Box_halfwidths s1 b ! i - 5 / 10 ^ 7 * \<bar>ext i\<bar>\<bar>
                      \<le> 5 / 10 ^ 7 * \<bar>ext i\<bar> / 2 ^ 52)
       \<and> (1 - 1 / 2 ^ 52) * (diagonal (map ext [0..<nax]) / 10 ^ 6) \<le> Box_diagonal s1 b
       \<and> Box_diagonal s1 b \<le> (1 + 1 / 2 ^ 52) * (diagonal (map ext [0..<nax]) / 10 ^ 6)"
    using res centre lo up near by (simp add: hw corner)
qed

theorem GetDefUnc_default_box_witness:
  "astOK store0 \<and> regions store0 0 = Some circle0
     \<and> astRegBaseBox flat_env store0 0 = Inr ([Finite (- 1), Finite (- 1)], [Finite 1, Finite 1])
     \<and> astAxDistance flat_env 2 1 (Finite (- 1)) (Finite 1) = Finite 2
     \<and> fst (GetDefUnc flat_env 0 store0) = Some 2
     \<and> Box_centre (snd (GetDefUnc flat_env 0 store0)) 2 = [Finite 0, Finite 0]
     \<and> Box_corner (snd (GetDefUnc flat_env 0 store0)) 2
         = [Finite (4722366482869645 / 2 ^ 72), Finite (4722366482869645 / 2 ^ 72)]
     \<and> Box_halfwidths (snd (GetDefUnc flat_env 0 store0)) 2
         = [4722366482869645 / 2 ^ 72, 4722366482869645 / 2 ^ 72]
     \<and> (1 - 1 / 2 ^ 52) * (diagonal [2, 2] / 10 ^ 6)
           \<le> Box_diagonal (snd (GetDefUnc flat_env 0 store0)) 2
     \<and> Box_diagonal (snd (GetDefUnc flat_env 0 store0)) 2
           \<le> (1 + 1 / 2 ^ 52) * (diagonal [2, 2] / 10 ^ 6)"
proof -
  define lb where "lb = [Finite (- 1), Finite (- 1)]"
  define ub where "ub = [Finite 1, Finite (1::real)]"
  define s1 where
    "s1 = snd (astBox flat_env 2 0 (DefUnc_centre 2) (DefUnc_corner flat_env 2 2 lb ub) None
                 store0)"
  have two: "[0..<2] = [0, Suc 0]" by (simp add: upt_rec)
  have d: "astAxDistance flat_env 2 1 (Finite (- 1)) (Finite 1) = Finite 2"
    by (simp add: flat_env_def round64_two)
  have h: "astOK store0 \<and> regions store0 0 = Some circle0
     \<and> frameset_at store0 (frameset circle0) = Some (2, 2, 0)
     \<and> astRegBaseBox flat_env store0 0 = Inr (lb, ub)
     \<and> (2::nat) = astGetFrame flat_env (2, 2, 0) AST__BASE
     \<and> (2::nat) = nat (frmGetNaxes flat_env 2)"
    by (simp add: store0_def astOK_def frameset_at_def circle0_def flat_env_def lb_def ub_def)
  have ax: "\<forall>i<2. astAxDistance flat_env 2 (int i + 1) (lb ! i) (ub ! i) = Finite 2
              \<and> \<bar>2::real\<bar> \<le> DBL_MAX \<and> ((2::real) = 0 \<or> 2 powi (- 1000) \<le> \<bar>2::real\<bar>)"
    using DBL_MAX_large
    by (simp add: flat_env_def round64_two lb_def ub_def less_Suc_eq numeral_2_eq_2)
  have box: "astBox flat_env 2 0 (DefUnc_centre 2) (DefUnc_corner flat_env 2 2 lb ub) None store0
               = (Some 2, s1)"
    by (simp add: s1_def flat_env_def store0_def)
  have ok1: "astOK s1"
    by (simp add: s1_def flat_env_def store0_def astOK_def)
  have ce: "Box_centre s1 2 = DefUnc_centre 2"
    by (simp add: s1_def flat_env_def store0_def Box_centre_def Box_points_def pointset_at_def
          DefUnc_centre_def DefUnc_corner_def two numeral_2_eq_2)
  have co: "Box_corner s1 2 = DefUnc_corner flat_env 2 2 lb ub"
    by (simp add: s1_def flat_env_def store0_def Box_corner_def Box_points_def pointset_at_def
          DefUnc_centre_def DefUnc_corner_def two numeral_2_eq_2)
  from h ax box ok1 ce co
    GetDefUnc_default_box [of store0 0 circle0 "(2, 2, 0)" flat_env lb ub 2 2 "\<lambda>i. 2" 2 s1]
  have c: "GetDefUnc flat_env 0 store0 = (Some 2, s1)
       \<and> Box_centre s1 2 = replicate 2 (Finite 0)
       \<and> length (Box_halfwidths s1 2) = 2
       \<and> (\<forall>i<2. Box_corner s1 2 ! i = dmul half_micro (Finite 2))
       \<and> (1 - 1 / 2 ^ 52) * (diagonal (map (\<lambda>i. 2) [0..<2]) / 10 ^ 6) \<le> Box_diagonal s1 2
       \<and> Box_diagonal s1 2 \<le> (1 + 1 / 2 ^ 52) * (diagonal (map (\<lambda>i. 2) [0..<2]) / 10 ^ 6)"
    by blast
  have cv: "Box_corner s1 2
              = [Finite (4722366482869645 / 2 ^ 72), Finite (4722366482869645 / 2 ^ 72)]"
    by (simp add: co DefUnc_corner_def two flat_env_def lb_def ub_def round64_two
          dmul_half_micro_two)
  have cz: "Box_centre s1 2 = [Finite 0, Finite 0]"
    using c by (simp add: numeral_2_eq_2)
  have hw: "Box_halfwidths s1 2 = [4722366482869645 / 2 ^ 72, 4722366482869645 / 2 ^ 72]"
    by (simp add: Box_halfwidths_def cv cz box_halfwidth_def dreal_def)
  from c have g: "GetDefUnc flat_env 0 store0 = (Some 2, s1)" by blast
  have m: "map (\<lambda>i. 2::real) [0..<2] = [2, 2]" by (simp add: two)
  show ?thesis
    using h d c cv cz hw unfolding g m lb_def ub_def by simp
qed

section \<open>A copy shares nothing with its original\<close>

lemma keeps_refl [simp]: "keeps s s"
  by (simp add: keeps_def)
lemma keeps_but_refl [simp]: "keeps_but q s s"
  by (simp add: keeps_but_def)

lemma keeps_trans: "keeps s t \<Longrightarrow> keeps t u \<Longrightarrow> keeps s u"
  by (auto simp: keeps_def)

lemma keeps_but_trans: "keeps_but q s t \<Longrightarrow> keeps_but q t u \<Longrightarrow> keeps_but q s u"
  by (auto simp: keeps_but_def)

lemma keeps_imp_but: "keeps s t \<Longrightarrow> keeps_but q s t"
  by (auto simp: keeps_def keeps_but_def)

lemma keeps_but_upd_region [simp]: "keeps_but q s (upd_region q f s)"
  by (auto simp: keeps_but_def upd_region_def split: option.splits)

lemma keeps_astCopyFrameSet: "keeps s (snd (astCopyFrameSet a s))"
  by (auto simp: astCopyFrameSet_def keeps_def split: option.splits)

lemma keeps_astCopyPointSet: "keeps s (snd (astCopyPointSet a s))"
  by (auto simp: astCopyPointSet_def keeps_def split: option.splits)

lemma keeps_new_region: "keeps s (snd (new_region r s))"
  by (auto simp: new_region_def keeps_def)

lemma unc_chain_keeps: "keeps s t \<Longrightarrow> unc_chain k s p \<Longrightarrow> unc_chain k t p"
proof (induction k arbitrary: p)
  case 0
  then show ?case by simp
next
  case (Suc k)
  from Suc.prems have lt: "p < next_free s" by simp
  with Suc.prems(1) have eq: "regions t p = regions s p" and lt': "p < next_free t"
    by (auto simp: keeps_def)
  show ?case
    using Suc.prems(2) Suc.IH [OF Suc.prems(1)] eq lt'
    by (auto split: option.splits)
qed

lemma unc_chain_keeps_but:
  "keeps_but q s t \<Longrightarrow> next_free s \<le> q \<Longrightarrow> unc_chain k s p \<Longrightarrow> unc_chain k t p"
  by (rule unc_chain_keeps) (auto simp: keeps_def keeps_but_def)


lemma keeps_then_but: "keeps s s1 \<Longrightarrow> keeps_but q s1 t \<Longrightarrow> next_free s \<le> q \<Longrightarrow> keeps s t"
  by (auto simp: keeps_def keeps_but_def)

lemma keeps_but_then_keeps: "keeps_but q s t \<Longrightarrow> keeps t u \<Longrightarrow> keeps_but q s u"
  by (auto simp: keeps_def keeps_but_def)

lemma ptr_ge_mono: "ptr_ge n x \<Longrightarrow> m \<le> n \<Longrightarrow> ptr_ge m x"
  by (auto simp: ptr_ge_def split: option.splits)

lemma astCopyFrameSet_props:
  assumes "astCopyFrameSet a s = (fp, t)" "astOK s"
  shows "regions t = regions s" "pointsets t = pointsets s" "keeps s t"
    "ptr_ge (next_free s) fp" "frameset_at t fp = frameset_at s a"
    "case fp of None \<Rightarrow> True | Some x \<Rightarrow> x < next_free t"
  using assms
  by (auto simp: astCopyFrameSet_def keeps_def ptr_ge_def frameset_at_def
           split: option.splits)

lemma astCopyPointSet_props:
  assumes "astCopyPointSet a s = (pp, t)" "astOK s"
  shows "regions t = regions s" "framesets t = framesets s" "keeps s t"
    "ptr_ge (next_free s) pp" "pointset_at t pp = pointset_at s a"
    "case pp of None \<Rightarrow> True | Some x \<Rightarrow> x < next_free t"
  using assms
  by (auto simp: astCopyPointSet_def keeps_def ptr_ge_def pointset_at_def
           split: option.splits)

lemma regions_upd_region: "regions (upd_region q f s) q = map_option f (regions s q)"
  by (auto simp: upd_region_def split: option.splits)

lemma regions_upd_region_other: "p \<noteq> q \<Longrightarrow> regions (upd_region q f s) p = regions s p"
  by (auto simp: upd_region_def split: option.splits)

lemma frameset_at_keeps_but:
  "keeps_but q s t \<Longrightarrow> (case x of None \<Rightarrow> True | Some a \<Rightarrow> a < next_free s)
     \<Longrightarrow> frameset_at t x = frameset_at s x"
  by (auto simp: keeps_but_def frameset_at_def split: option.splits)

lemma pointset_at_keeps_but:
  "keeps_but q s t \<Longrightarrow> (case x of None \<Rightarrow> True | Some a \<Rightarrow> a < next_free s)
     \<Longrightarrow> pointset_at t x = pointset_at s x"
  by (auto simp: keeps_but_def pointset_at_def split: option.splits)


lemma fresh_in_None [simp]: "fresh_in n t None"
  by (simp add: fresh_in_def)

lemma fresh_in_mono: "fresh_in n t x \<Longrightarrow> next_free t \<le> next_free u \<Longrightarrow> fresh_in n u x"
  by (auto simp: fresh_in_def split: option.splits)

lemma fresh_in_lt: "fresh_in n t x \<Longrightarrow> (case x of None \<Rightarrow> True | Some a \<Rightarrow> a < next_free t)"
  by (auto simp: fresh_in_def split: option.splits)

lemma copy_inv_clear:
  assumes "astOK s" "regions s q = Some r0" "q < next_free s"
  shows "copy_inv n q r0 None None
           (upd_region q (\<lambda>out. out\<lparr>basemesh := None, frameset := None, points := None,
                                 unc := None\<rparr>) s)"
  using assms
  by (auto simp: copy_inv_def regions_upd_region nonptr_def frameset_at_def pointset_at_def)

lemma copy_inv_frameset:
  assumes inv: "copy_inv n q r0 F P t" and n: "n \<le> next_free t"
  shows "copy_inv n q r0 (frameset_at t a) P
           (case astCopyFrameSet a t of (fp, u) \<Rightarrow> upd_region q (\<lambda>out. out\<lparr>frameset := fp\<rparr>) u)"
    and "keeps_but q t
           (case astCopyFrameSet a t of (fp, u) \<Rightarrow> upd_region q (\<lambda>out. out\<lparr>frameset := fp\<rparr>) u)"
    and "pointsets
           (case astCopyFrameSet a t of (fp, u) \<Rightarrow> upd_region q (\<lambda>out. out\<lparr>frameset := fp\<rparr>) u)
         = pointsets t"
proof -
  obtain fp u where c: "astCopyFrameSet a t = (fp, u)" by (cases "astCopyFrameSet a t")
  have ok: "astOK t" using inv by (simp add: copy_inv_def)
  note p = astCopyFrameSet_props [OF c ok]
  from inv obtain r' where r': "regions t q = Some r'" "nonptr r' = nonptr r0"
       "fresh_in n t (frameset r')" "fresh_in n t (points r')"
         "fresh_in n t (basemesh r')" "fresh_in n t (unc r')"
         "pointset_at t (points r') = P" "q < next_free t"
    by (auto simp: copy_inv_def)
  have le: "next_free t \<le> next_free u" using p(3) by (simp add: keeps_def)
  have oku: "astOK u" using p(3) ok by (simp add: keeps_def astOK_def)
  have fr: "fresh_in n u fp"
    using p(4) p(6) n by (auto simp: fresh_in_def ptr_ge_def split: option.splits)
  have pv: "pointset_at u (points r') = P"
    using r'(7) p(2) by (auto simp: pointset_at_def split: option.splits)
  show "copy_inv n q r0 (frameset_at t a) P
           (case astCopyFrameSet a t of (fp, u) \<Rightarrow> upd_region q (\<lambda>out. out\<lparr>frameset := fp\<rparr>) u)"
    using c r' p(1) p(5) le oku fr pv
    by (auto simp: copy_inv_def regions_upd_region nonptr_def intro: fresh_in_mono)
  show "keeps_but q t
           (case astCopyFrameSet a t of (fp, u) \<Rightarrow> upd_region q (\<lambda>out. out\<lparr>frameset := fp\<rparr>) u)"
    using c p(3)
    by (auto simp: keeps_but_def keeps_def regions_upd_region_other)
  show "pointsets
           (case astCopyFrameSet a t of (fp, u) \<Rightarrow> upd_region q (\<lambda>out. out\<lparr>frameset := fp\<rparr>) u)
         = pointsets t"
    using c p(2) by (simp add: upd_region_def split: option.splits)
qed


lemma copy_inv_points:
  assumes inv: "copy_inv n q r0 F P t" and n: "n \<le> next_free t"
  shows "copy_inv n q r0 F (pointset_at t a)
           (case astCopyPointSet a t of (pp, u) \<Rightarrow> upd_region q (\<lambda>out. out\<lparr>points := pp\<rparr>) u)"
    and "keeps_but q t
           (case astCopyPointSet a t of (pp, u) \<Rightarrow> upd_region q (\<lambda>out. out\<lparr>points := pp\<rparr>) u)"
proof -
  obtain pp u where c: "astCopyPointSet a t = (pp, u)" by (cases "astCopyPointSet a t")
  have ok: "astOK t" using inv by (simp add: copy_inv_def)
  note p = astCopyPointSet_props [OF c ok]
  from inv obtain r' where r': "regions t q = Some r'" "nonptr r' = nonptr r0"
       "fresh_in n t (frameset r')" "fresh_in n t (points r')"
         "fresh_in n t (basemesh r')" "fresh_in n t (unc r')"
         "frameset_at t (frameset r') = F" "q < next_free t"
    by (auto simp: copy_inv_def)
  have le: "next_free t \<le> next_free u" using p(3) by (simp add: keeps_def)
  have oku: "astOK u" using p(3) ok by (simp add: keeps_def astOK_def)
  have fr: "fresh_in n u pp"
    using p(4) p(6) n by (auto simp: fresh_in_def ptr_ge_def split: option.splits)
  have fv: "frameset_at u (frameset r') = F"
    using r'(7) p(2) by (auto simp: frameset_at_def split: option.splits)
  show "copy_inv n q r0 F (pointset_at t a)
           (case astCopyPointSet a t of (pp, u) \<Rightarrow> upd_region q (\<lambda>out. out\<lparr>points := pp\<rparr>) u)"
    using c r' p(1) p(5) le oku fr fv
    by (auto simp: copy_inv_def regions_upd_region nonptr_def intro: fresh_in_mono)
  show "keeps_but q t
           (case astCopyPointSet a t of (pp, u) \<Rightarrow> upd_region q (\<lambda>out. out\<lparr>points := pp\<rparr>) u)"
    using c p(3)
    by (auto simp: keeps_but_def keeps_def regions_upd_region_other)
qed

lemma copy_inv_basemesh:
  assumes inv: "copy_inv n q r0 F P t" and n: "n \<le> next_free t"
  shows "copy_inv n q r0 F P
           (case astCopyPointSet a t of (bp, u) \<Rightarrow> upd_region q (\<lambda>out. out\<lparr>basemesh := bp\<rparr>) u)"
    and "keeps_but q t
           (case astCopyPointSet a t of (bp, u) \<Rightarrow> upd_region q (\<lambda>out. out\<lparr>basemesh := bp\<rparr>) u)"
proof -
  obtain pp u where c: "astCopyPointSet a t = (pp, u)" by (cases "astCopyPointSet a t")
  have ok: "astOK t" using inv by (simp add: copy_inv_def)
  note p = astCopyPointSet_props [OF c ok]
  from inv obtain r' where r': "regions t q = Some r'" "nonptr r' = nonptr r0"
       "fresh_in n t (frameset r')" "fresh_in n t (points r')"
         "fresh_in n t (basemesh r')" "fresh_in n t (unc r')"
         "frameset_at t (frameset r') = F" "pointset_at t (points r') = P" "q < next_free t"
    by (auto simp: copy_inv_def)
  have le: "next_free t \<le> next_free u" using p(3) by (simp add: keeps_def)
  have oku: "astOK u" using p(3) ok by (simp add: keeps_def astOK_def)
  have fr: "fresh_in n u pp"
    using p(4) p(6) n by (auto simp: fresh_in_def ptr_ge_def split: option.splits)
  have fv: "frameset_at u (frameset r') = F"
    using r'(7) p(2) by (auto simp: frameset_at_def split: option.splits)
  have pv: "pointset_at u (points r') = P"
    using r'(8) r'(4) p(3) 
    by (auto simp: pointset_at_def keeps_def fresh_in_def split: option.splits)
  show "copy_inv n q r0 F P
           (case astCopyPointSet a t of (bp, u) \<Rightarrow> upd_region q (\<lambda>out. out\<lparr>basemesh := bp\<rparr>) u)"
    using c r' p(1) le oku fr fv pv
    by (auto simp: copy_inv_def regions_upd_region nonptr_def intro: fresh_in_mono)
  show "keeps_but q t
           (case astCopyPointSet a t of (bp, u) \<Rightarrow> upd_region q (\<lambda>out. out\<lparr>basemesh := bp\<rparr>) u)"
    using c p(3)
    by (auto simp: keeps_but_def keeps_def regions_upd_region_other)
qed

lemma copy_inv_unc:
  assumes inv: "copy_inv n q r0 F P t" and k: "keeps t u" and fr: "fresh_in n u up"
  shows "copy_inv n q r0 F P (upd_region q (\<lambda>out. out\<lparr>unc := up\<rparr>) u)"
    and "keeps_but q t (upd_region q (\<lambda>out. out\<lparr>unc := up\<rparr>) u)"
proof -
  from inv obtain r' where r': "regions t q = Some r'" "nonptr r' = nonptr r0"
       "fresh_in n t (frameset r')" "fresh_in n t (points r')"
         "fresh_in n t (basemesh r')" "fresh_in n t (unc r')"
         "frameset_at t (frameset r') = F" "pointset_at t (points r') = P" "q < next_free t"
       "astOK t"
    by (auto simp: copy_inv_def)
  have le: "next_free t \<le> next_free u" using k by (simp add: keeps_def)
  have oku: "astOK u" using k r'(10) by (simp add: keeps_def astOK_def)
  have rq: "regions u q = Some r'" using k r'(1) r'(9) by (simp add: keeps_def)
  have fv: "frameset_at u (frameset r') = F"
    using r'(7) r'(3) k
    by (auto simp: frameset_at_def keeps_def fresh_in_def split: option.splits)
  have pv: "pointset_at u (points r') = P"
    using r'(8) r'(4) k
    by (auto simp: pointset_at_def keeps_def fresh_in_def split: option.splits)
  show "copy_inv n q r0 F P (upd_region q (\<lambda>out. out\<lparr>unc := up\<rparr>) u)"
    using r' rq le oku fr fv pv
    by (auto simp: copy_inv_def regions_upd_region nonptr_def intro: fresh_in_mono)
  show "keeps_but q t (upd_region q (\<lambda>out. out\<lparr>unc := up\<rparr>) u)"
    using k
    by (auto simp: keeps_but_def keeps_def regions_upd_region_other)
qed


lemma copy_inv_weaken_P:
  "copy_inv n q r0 F None t \<Longrightarrow> P = None \<Longrightarrow> copy_inv n q r0 F P t"
  by simp

lemma Copy_props:
  assumes ok: "astOK s" and rin: "regions s objin = Some r" and rq: "regions s q = Some r0"
    and q: "q < next_free s" and n: "n \<le> next_free s" "n \<le> q"
    and cp: "\<And>u t. unc r = Some u \<Longrightarrow> astOK t \<Longrightarrow> keeps_but q s t \<Longrightarrow>
               \<exists>up t'. cp u t = Some (up, t') \<and> keeps t t' \<and> fresh_in n t' up"
  shows "\<exists>t. Copy cp objin q s = Some t \<and> keeps_but q s t
           \<and> copy_inv n q r0 (frameset_at s (frameset r)) (pointset_at s (points r)) t"
proof -
  define t0 where "t0 = upd_region q (\<lambda>out. out\<lparr>basemesh := None, frameset := None,
                                 points := None, unc := None\<rparr>) s"
  define t1 where "t1 = (case astCopyFrameSet (frameset r) t0 of
                      (fp, t) \<Rightarrow> upd_region q (\<lambda>out. out\<lparr>frameset := fp\<rparr>) t)"
  define t2 where "t2 = (if points r \<noteq> None
                    then (case astCopyPointSet (points r) t1 of
                            (pp, t) \<Rightarrow> upd_region q (\<lambda>out. out\<lparr>points := pp\<rparr>) t)
                    else t1)"
  define t3 where "t3 = (if basemesh r \<noteq> None
                    then (case astCopyPointSet (basemesh r) t2 of
                            (bp, t) \<Rightarrow> upd_region q (\<lambda>out. out\<lparr>basemesh := bp\<rparr>) t)
                    else t2)"
  have unf: "Copy cp objin q s =
      (case unc r of
                None \<Rightarrow> Some t3
              | Some u \<Rightarrow>
                  (case cp u t3 of
                     None \<Rightarrow> None
                   | Some (up, t) \<Rightarrow> Some (upd_region q (\<lambda>out. out\<lparr>unc := up\<rparr>) t)))"
    unfolding Copy_def Let_def t0_def t1_def t2_def t3_def using ok rin by simp
  have i0: "copy_inv n q r0 None None t0"
    unfolding t0_def by (rule copy_inv_clear [OF ok rq q])
  have k0: "keeps_but q s t0" by (simp add: t0_def)
  have n0: "n \<le> next_free t0" using n by (simp add: t0_def)
  have f0: "frameset_at t0 (frameset r) = frameset_at s (frameset r)"
           "pointsets t0 = pointsets s"
    by (simp_all add: t0_def)
  have i1: "copy_inv n q r0 (frameset_at s (frameset r)) None t1"
    and k1: "keeps_but q t0 t1" and p1: "pointsets t1 = pointsets t0"
    using copy_inv_frameset [OF i0 n0, of "frameset r"] f0 by (simp_all add: t1_def)
  have n1: "n \<le> next_free t1" using n0 k1 by (simp add: keeps_but_def)
  have pa1: "pointset_at t1 (points r) = pointset_at s (points r)"
    using p1 f0(2) by (auto simp: pointset_at_def split: option.splits)
  have i2: "copy_inv n q r0 (frameset_at s (frameset r)) (pointset_at s (points r)) t2"
    and k2: "keeps_but q t1 t2"
  proof -
    show "copy_inv n q r0 (frameset_at s (frameset r)) (pointset_at s (points r)) t2"
    proof (cases "points r")
      case None
      then show ?thesis using i1 by (simp add: t2_def pointset_at_def)
    next
      case (Some a)
      then show ?thesis
        using copy_inv_points(1) [OF i1 n1, of "points r"] pa1 by (simp add: t2_def)
    qed
    show "keeps_but q t1 t2"
      using copy_inv_points(2) [OF i1 n1, of "points r"] by (simp add: t2_def)
  qed
  have n2: "n \<le> next_free t2" using n1 k2 by (simp add: keeps_but_def)
  have i3: "copy_inv n q r0 (frameset_at s (frameset r)) (pointset_at s (points r)) t3"
    and k3: "keeps_but q t2 t3"
    using copy_inv_basemesh [OF i2 n2, of "basemesh r"] i2 by (simp_all add: t3_def)
  have ks3: "keeps_but q s t3"
    using k0 k1 k2 k3 by (blast intro: keeps_but_trans)
  show ?thesis
  proof (cases "unc r")
    case None
    then show ?thesis using unf i3 ks3 by simp
  next
    case (Some u)
    have ok3: "astOK t3" using i3 by (simp add: copy_inv_def)
    from cp [OF Some ok3 ks3] obtain up t' where
      c: "cp u t3 = Some (up, t')" and kk: "keeps t3 t'" and fr: "fresh_in n t' up"
      by blast
    have "copy_inv n q r0 (frameset_at s (frameset r)) (pointset_at s (points r))
            (upd_region q (\<lambda>out. out\<lparr>unc := up\<rparr>) t')"
      and "keeps_but q t3 (upd_region q (\<lambda>out. out\<lparr>unc := up\<rparr>) t')"
      using copy_inv_unc [OF i3 kk fr] by simp_all
    then show ?thesis
      using unf Some c ks3 by (auto intro: keeps_but_trans)
  qed
qed

lemma astCopyRegion_total:
  "astOK s \<Longrightarrow> unc_chain n s p \<Longrightarrow>
   \<exists>res t. astCopyRegion n p s = Some (res, t) \<and> keeps s t \<and>
     (case regions s p of
        None \<Rightarrow> res = None \<and> t = s
      | Some r \<Rightarrow> res = Some (next_free s)
          \<and> copy_inv (next_free s) (next_free s) r (frameset_at s (frameset r))
               (pointset_at s (points r)) t)"
proof (induction n arbitrary: p s)
  case 0
  then show ?case by simp
next
  case (Suc k)
  note ok = Suc.prems(1)
  from Suc.prems(2) have plt: "p < next_free s" by simp
  show ?case
  proof (cases "regions s p")
    case None
    then show ?thesis using ok by simp
  next
    case (Some r)
    define q where "q = next_free s"
    define s1 where "s1 = s\<lparr>regions := (regions s)(q \<mapsto> r), next_free := Suc q\<rparr>"
    have nr: "new_region r s = (q, s1)" by (simp add: new_region_def q_def s1_def)
    have ok1: "astOK s1" using ok by (simp add: s1_def astOK_def)
    have ks1: "keeps s s1" by (auto simp: keeps_def s1_def q_def)
    have rin: "regions s1 p = Some r" using Some plt by (simp add: s1_def q_def)
    have rq: "regions s1 q = Some r" by (simp add: s1_def)
    have fa: "frameset_at s1 (frameset r) = frameset_at s (frameset r)"
             "pointset_at s1 (points r) = pointset_at s (points r)"
      by (auto simp: s1_def frameset_at_def pointset_at_def split: option.splits)
    have cp: "\<exists>up t'. astCopyRegion k u t = Some (up, t') \<and> keeps t t' \<and> fresh_in q t' up"
      if u: "unc r = Some u" and okt: "astOK t" and kb: "keeps_but q s1 t" for u t
    proof -
      have kst: "keeps s t" using keeps_then_but [OF ks1 kb] by (simp add: q_def)
      have "unc_chain k s u" using Suc.prems(2) Some u by simp
      then have ch: "unc_chain k t u" by (rule unc_chain_keeps [OF kst])
      from Suc.IH [OF okt ch] obtain res t' where
        c: "astCopyRegion k u t = Some (res, t')" and kk: "keeps t t'"
        and cs: "case regions t u of None \<Rightarrow> res = None \<and> t' = t
                 | Some ru \<Rightarrow> res = Some (next_free t)
                     \<and> copy_inv (next_free t) (next_free t) ru (frameset_at t (frameset ru))
                          (pointset_at t (points ru)) t'"
        by blast
      have "q \<le> next_free t" using kb by (simp add: keeps_but_def s1_def)
      then have "fresh_in q t' res"
        using cs by (auto simp: fresh_in_def copy_inv_def split: option.splits)
      then show ?thesis using c kk by blast
    qed
    have "\<exists>t. Copy (astCopyRegion k) p q s1 = Some t \<and> keeps_but q s1 t
           \<and> copy_inv q q r (frameset_at s1 (frameset r)) (pointset_at s1 (points r)) t"
    proof (rule Copy_props [OF ok1 rin rq])
      show "q < next_free s1" by (simp add: s1_def)
      show "q \<le> next_free s1" by (simp add: s1_def)
      show "q \<le> q" by simp
      show "\<exists>up t'. astCopyRegion k u t = Some (up, t') \<and> keeps t t' \<and> fresh_in q t' up"
        if "unc r = Some u" "astOK t" "keeps_but q s1 t" for u t
        using that by (rule cp)
    qed
    then obtain t where c: "Copy (astCopyRegion k) p q s1 = Some t" and kb: "keeps_but q s1 t"
      and ci: "copy_inv q q r (frameset_at s1 (frameset r)) (pointset_at s1 (points r)) t"
      by blast
    have okt: "astOK t" using ci by (simp add: copy_inv_def)
    have kst: "keeps s t" using keeps_then_but [OF ks1 kb] by (simp add: q_def)
    show ?thesis
      using Some ok nr c okt kst ci fa by (simp add: q_def)
  qed
qed


lemma astError_store [simp]:
  "regions (astError c s) = regions s" "framesets (astError c s) = framesets s"
  "pointsets (astError c s) = pointsets s" "next_free (astError c s) = next_free s"
  by (simp_all add: astError_def)

lemma upd_frameset_store [simp]:
  "regions (upd_frameset p f s) = regions s"
  "pointsets (upd_frameset p f s) = pointsets s"
  "next_free (upd_frameset p f s) = next_free s"
  "status (upd_frameset p f s) = status s"
  by (auto simp: upd_frameset_def split: option.splits)



lemma SetRegionFS_store [simp]:
  "framesets (SetRegionFS q v s) = framesets s"
  "pointsets (SetRegionFS q v s) = pointsets s"
  "next_free (SetRegionFS q v s) = next_free s"
  "status (SetRegionFS q v s) = status s"
  by (auto simp: SetRegionFS_def upd_region_def split: option.splits)


lemma below_refl [simp]: "below n s s"
  by (simp add: below_def)











section \<open>The check of the grid bounds in Mask\<close>

lemma unc_chain_astError: "unc_chain k (astError c s) p = unc_chain k s p"
  by (induction k arbitrary: p) (auto simp: astError_def split: option.splits)

lemma MapRegion_total:
  "unc_chain fuel s this \<Longrightarrow> \<exists>res s'. MapRegion fuel E this m frame s = Some (res, s')"
proof (cases "astOK s \<and> astGetTranForward E m \<and> astGetTranInverse E m")
  case True
  assume "unc_chain fuel s this"
  with True astCopyRegion_total [of s fuel this]
  obtain res t where "astCopyRegion fuel this s = Some (res, t)" by blast
  with True show ?thesis by (simp add: MapRegion_def Let_def)
next
  case False
  then show ?thesis
    by (auto simp: MapRegion_def Let_def astCopyRegion_not_ok)
qed

text \<open>
  C9, as the specification states it, fails: a call without a Mapping on a grid of one
  dimension and a Region of two axes has a lower bound above its upper bound, yet the
  failed check of the dimensions has set the error status, the bounds are not looked at,
  and no invalid-bounds error is reported.
\<close>

theorem Mask_bounds_counterexample:
  "astOK store0 \<and> bad_bounds 1 [5] [1]
     \<and> Mask (\<lambda>s r nd lb ub i v lg ug out. (0, out)) 0 flat_env 0 None 0 1 [5] [1]
           [7 :: int] 9 store0
         = Some ((0, [7]), astError AST__NGDIN (astError AST__NGDIN store0))
     \<and> AST__GBDIN \<notin> set (reports (astError AST__NGDIN (astError AST__NGDIN store0)))"
  by (simp add: Mask_def Mask_region_def bad_bounds_def GetNaxes_def store0_def astOK_def
        astError_def circle0_def flat_env_def)

text \<open>
  C9, amended. \<open>Mask<X>\<close> is called with the error status clear and some lower grid
  bound above its upper bound. Whatever Region the first part of the call arrives at,
  the call returns 0 and leaves the data array unchanged; if the error status is still
  clear after that first part (the checks of the numbers of axes and the re-expression
  of the Region), the bounds are checked and the invalid-bounds error \<open>AST__GBDIN\<close> is
  reported, and otherwise nothing further is reported. Without a Mapping and with a grid
  of as many dimensions as the Region has axes the error is reported; with fuel for the
  copy the first part of the call always returns.
\<close>

theorem Mask_invalid_bounds:
  "astOK s \<and> bad_bounds ndim lbnd ubnd \<longrightarrow>
     (Mask_region fuel E this m ndim s = Some (used, s3) \<longrightarrow>
        Mask resample fuel E this m inside ndim lbnd ubnd inarr val s
          = Some ((0, inarr),
                  if astOK s3 then astError AST__GBDIN (astError AST__GBDIN s3) else s3)
        \<and> (astOK s3 \<longrightarrow>
             status (astError AST__GBDIN (astError AST__GBDIN s3)) = Some AST__GBDIN
             \<and> reports (astError AST__GBDIN (astError AST__GBDIN s3))
                 = reports s3 @ [AST__GBDIN, AST__GBDIN]))
     \<and> (m = None \<and> ndim = GetNaxes E s this \<and> 1 \<le> ndim \<longrightarrow>
          Mask resample fuel E this m inside ndim lbnd ubnd inarr val s
            = Some ((0, inarr), astError AST__GBDIN (astError AST__GBDIN s)))
     \<and> (unc_chain fuel s this \<longrightarrow>
          (\<exists>used1 s1. Mask_region fuel E this m ndim s = Some (used1, s1)))"
proof (intro impI conjI; (elim conjE)?)
  assume "astOK s" "bad_bounds ndim lbnd ubnd"
    "Mask_region fuel E this m ndim s = Some (used, s3)"
  then show "Mask resample fuel E this m inside ndim lbnd ubnd inarr val s
          = Some ((0, inarr),
                  if astOK s3 then astError AST__GBDIN (astError AST__GBDIN s3) else s3)"
    by (simp add: Mask_def Let_def)
next
  show "status (astError AST__GBDIN (astError AST__GBDIN s3)) = Some AST__GBDIN"
    by (simp add: astError_def)
next
  show "reports (astError AST__GBDIN (astError AST__GBDIN s3)) = reports s3 @ [AST__GBDIN, AST__GBDIN]"
    by (simp add: astError_def)
next
  assume "astOK s" "bad_bounds ndim lbnd ubnd" "m = None" "ndim = GetNaxes E s this" "1 \<le> ndim"
  then show "Mask resample fuel E this m inside ndim lbnd ubnd inarr val s
            = Some ((0, inarr), astError AST__GBDIN (astError AST__GBDIN s))"
    by (simp add: Mask_def Mask_region_def Let_def)
next
  assume ch: "unc_chain fuel s this"
  show "\<exists>used1 s1. Mask_region fuel E this m ndim s = Some (used1, s1)"
  proof (cases m)
    case None
    then show ?thesis by (simp add: Mask_region_def Let_def)
  next
    case (Some mp)
    then show ?thesis
      using ch by (auto simp: Mask_region_def Let_def unc_chain_astError intro!: MapRegion_total)
  qed
qed

theorem Mask_invalid_bounds_witness:
  "astOK store0 \<and> bad_bounds 2 [5, 1] [1, 9] \<and> (2::int) = GetNaxes flat_env store0 0
     \<and> Mask_region 1 flat_env 0 None 2 store0 = Some (Some 0, store0)
     \<and> unc_chain 1 store0 0
     \<and> Mask (\<lambda>s r nd lb ub i v lg ug out. (0, out)) 1 flat_env 0 None 1 2 [5, 1] [1, 9]
           [7 :: int, 7, 7, 7] 9 store0
         = Some ((0, [7, 7, 7, 7]), astError AST__GBDIN (astError AST__GBDIN store0))
     \<and> reports (astError AST__GBDIN (astError AST__GBDIN store0)) = [AST__GBDIN, AST__GBDIN]"
proof -
  have h: "astOK store0 \<and> bad_bounds 2 [5, 1] [1, 9]"
    by (simp add: store0_def astOK_def bad_bounds_def)
  have n: "(2::int) = GetNaxes flat_env store0 0"
    by (simp add: GetNaxes_def store0_def astOK_def circle0_def flat_env_def)
  have r: "Mask_region 1 flat_env 0 None 2 store0 = Some (Some 0, store0)"
    using n by (simp add: Mask_region_def)
  have c: "unc_chain 1 store0 0"
    by (simp add: store0_def circle0_def)
  have e: "reports store0 = []" "astOK store0"
    by (simp_all add: store0_def astOK_def)
  show ?thesis
    using h n r c e
      Mask_invalid_bounds [of store0 2 "[5, 1]" "[1, 9]" 1 flat_env 0 None "Some 0" store0
        "\<lambda>s r nd lb ub i v lg ug out. (0, out)" 1 "[7, 7, 7, 7] :: int list" "9 :: int"]
    by simp
qed

section \<open>Overlap of two unbounded Regions\<close>

lemmas run_defs = OverlapX_mesh_def Convert_def RegMesh_def RegMapping_def GetUnc_def
  GetDefUnc_def DefUnc_centre_def DefUnc_corner_def MapRegion_def Copy_def new_region_def
  astCopyFrameSet_def astCopyPointSet_def MapRegion_surgery_def SetRegionFS_def
  upd_region_def upd_frameset_def frameset_at_def pointset_at_def OverlapX_classify_def
  scan_mesh_def astGetBounded_def GetBounded_def GetNegated_def plane_env_def flat_env_def
  store_discs_def circle0_def astOK_def plane_radius_def plane_inside_def
  plane_on_edge_def Let_def INT_MAX_def

lemmas run_fast_defs = Overlap_def OverlapX_def Equal_def Negate_def SetNegated_def
  finite_boundary_def GetClosed_def

lemma deq_small_bad: "\<bar>x\<bar> \<le> 4 \<Longrightarrow> \<not> deq (Finite x) AST__BAD"
  using DBL_MAX_large by (auto simp: AST__BAD_def)

lemma deq_bad_bad: "deq AST__BAD AST__BAD"
  by (simp add: AST__BAD_def)

text \<open>
  In \<open>store_discs\<close> every point of the Region at address \<open>3\<close> lies in the Region at
  address \<open>0\<close>, and the two Regions differ: the second is completely inside the first.
\<close>

lemma store_discs_nested:
  "(plane_inside store_discs 3 (Finite x, Finite y)
      \<longrightarrow> plane_inside store_discs 0 (Finite x, Finite y))
   \<and> plane_inside store_discs 0 (Finite 1, Finite 0)
   \<and> \<not> plane_inside store_discs 3 (Finite 1, Finite 0)"
  by (simp add: plane_inside_def plane_radius_def GetNegated_def store_discs_def astOK_def
        pointset_at_def circle0_def INT_MAX_def)

text \<open>
  C2. Both Regions of \<open>store_discs\<close> are unbounded and each has a boundary of finite
  length, so each call of \<open>Overlap\<close> takes the mesh of its own second argument.
  \<open>Overlap\<close> of the outside of the unit disc and the outside of the disc of radius 2
  finds the mesh of the second inside the first and the second unbounded, and returns 4;
  with the arguments exchanged it finds the mesh of the second outside the first and both
  unbounded, and returns 2.
\<close>

theorem Overlap_nested_unbounded:
  "map_option fst (Overlap 1 plane_env 0 3 store_discs) = Some 4
     \<and> map_option fst (Overlap 1 plane_env 3 0 store_discs) = Some 2"
  by (simp add: run_fast_defs run_defs deq_small_bad deq_bad_bad)

end
